theory Spec2Isabelle
  imports Complex_Main "HOL-Library.AList"
begin

section \<open>Numbers and errors of the Python source\<close>

text \<open>
  The pool engine of \<^verbatim>\<open>src/pair.py\<close> computes with Python integers and floats.
  Tick indices are modelled as \<open>int\<close>; every other number (liquidity, prices, fee
  growth, balances) as \<open>real\<close>, so an integer amount is the real with the same value and
  a float is the real it stands for: the rounding of floating-point operations is not
  part of the model. The exceptions the code raises are the values of \<open>error\<close>. The limited
  range of floats is modelled in \<^verbatim>\<open>tick_to_sqrt_price\<close>, where the tick index alone
  decides whether the call returns; in the other operations the numbers are taken to lie
  within that range, and a theorem that depends on it carries the bound as a hypothesis.
\<close>

datatype error =
    SlippageTooHighException
  | InsufficientLiquidityException
  | ZeroDivisionError
  | KeyError
  | IndexError
  | UnboundLocalError
  | OverflowError

text \<open>Python's \<^verbatim>\<open>int(x)\<close> on a float truncates towards zero.\<close>

definition py_int :: "real \<Rightarrow> int" where
  "py_int x = (if 0 \<le> x then \<lfloor>x\<rfloor> else \<lceil>x\<rceil>)"

text \<open>Python's \<^verbatim>\<open>round(x)\<close> rounds to the nearest integer, a tie to the even one.\<close>

definition py_round :: "real \<Rightarrow> int" where
  "py_round x =
     (let f = \<lfloor>x\<rfloor>; d = x - of_int f
      in if d < 1 / 2 then f
         else if 1 / 2 < d then f + 1
         else if even f then f else f + 1)"

section \<open>Price/tick codec\<close>

text \<open>
  \<^verbatim>\<open>self.std_increment_distance = int(9e6)\<close> and \<^verbatim>\<open>self.exp_at_price_one = -6\<close>
  are assigned once in \<^verbatim>\<open>Pair.__init__\<close> and by no other method, so they are
  constants here.
\<close>

definition std_increment_distance :: int where
  "std_increment_distance = 9000000"

definition exp_at_price_one :: int where
  "exp_at_price_one = - 6"

text \<open>
  The range of Python's floats is part of the model where \<^verbatim>\<open>tick_to_sqrt_price\<close> meets
  it. A Python integer (or the quotient of two integers under \<^verbatim>\<open>/\<close>) whose nearest
  float is not finite raises OverflowError when it is converted; the integers concerned
  are those of absolute value at least \<open>2 ^ 1024 - 2 ^ 970\<close>. A power \<^verbatim>\<open>10 ** e\<close> with an
  integer \<open>e\<close> is an exact integer for \<open>e \<ge> 0\<close> and a float for \<open>e < 0\<close>, and the float
  is \<^verbatim>\<open>0.0\<close> from \<^verbatim>\<open>10 ** -324\<close> on.
\<close>

definition float_overflow :: "real \<Rightarrow> bool" where
  "float_overflow x \<longleftrightarrow> 2 ^ 1024 - 2 ^ 970 \<le> \<bar>x\<bar>"

definition py_pow10 :: "int \<Rightarrow> real" where
  "py_pow10 e = (if e \<le> - 324 then 0 else 10 powi e)"

text \<open>
  \<^verbatim>\<open>tick_to_sqrt_price\<close>. The local \<^verbatim>\<open>price\<close> is kept as a function of its own. The
  division \<^verbatim>\<open>tick/self.std_increment_distance\<close> raises OverflowError when the quotient
  has no float. For a positive tick whose exponent \<^verbatim>\<open>exp_at_curr_tick\<close> is not negative,
  \<^verbatim>\<open>price\<close> and \<^verbatim>\<open>price + curr_additive_increment\<close> are Python integers, and
  \<^verbatim>\<open>price**(1/2)\<close> or \<^verbatim>\<open>(price + curr_additive_increment)**(1/2)\<close> raises OverflowError
  when the integer has no float; the increment is positive, so this is the case exactly
  when the larger of the two has none. The price is never negative, and \<^verbatim>\<open>**(1/2)\<close> is
  the square root. For ticks from -2916000000 downwards both powers are \<^verbatim>\<open>0.0\<close> and the
  result is \<^verbatim>\<open>(0.0, 0.0)\<close>. The smallest tick that raises is 2772797693. (For ticks many
  orders of magnitude beyond it the integer power \<^verbatim>\<open>10 ** curr_increment_lvl\<close> is itself
  out of reach of the machine; the call does not return a pair there either.)
\<close>

definition curr_increment_lvl_of :: "int \<Rightarrow> int" where
  "curr_increment_lvl_of tick = py_int \<bar>of_int tick / of_int std_increment_distance\<bar>"

definition curr_additive_increment_of :: "int \<Rightarrow> real" where
  "curr_additive_increment_of tick =
     (let curr_increment_lvl = curr_increment_lvl_of tick
      in if 0 < tick then py_pow10 (exp_at_price_one + curr_increment_lvl)
         else py_pow10 (exp_at_price_one - (curr_increment_lvl + 1)))"

definition tick_price :: "int \<Rightarrow> real" where
  "tick_price tick =
     (let curr_increment_lvl = curr_increment_lvl_of tick;
          curr_additive_increment = curr_additive_increment_of tick
      in if 0 < tick then
           (let num_additive_ticks = tick - curr_increment_lvl * std_increment_distance
            in py_pow10 curr_increment_lvl + of_int num_additive_ticks * curr_additive_increment)
         else
           (let num_additive_ticks = - tick - curr_increment_lvl * std_increment_distance
            in py_pow10 (- curr_increment_lvl)
               - of_int num_additive_ticks * curr_additive_increment))"

definition tick_to_sqrt_price :: "int \<Rightarrow> error + real \<times> real" where
  "tick_to_sqrt_price tick =
     (if float_overflow (of_int tick / of_int std_increment_distance) then Inl OverflowError
      else
        (let price = tick_price tick;
             curr_additive_increment = curr_additive_increment_of tick
         in if 0 < tick \<and> 0 \<le> exp_at_price_one + curr_increment_lvl_of tick \<and>
               float_overflow (price + curr_additive_increment)
            then Inl OverflowError
            else Inr (sqrt price, sqrt (price + curr_additive_increment))))"

text \<open>
  Every caller keeps the first component only:
  \<^verbatim>\<open>p, _ = self.tick_to_sqrt_price(tick)\<close>.
\<close>

definition tick_sqrt_price :: "int \<Rightarrow> error + real" where
  "tick_sqrt_price tick =
     (case tick_to_sqrt_price tick of Inl e \<Rightarrow> Inl e | Inr (p, _) \<Rightarrow> Inr p)"

text \<open>
  \<^verbatim>\<open>sqrt_price_to_tick\<close>. The two \<^verbatim>\<open>for i, pl in enumerate(price_levels)\<close> loops run
  over the indices \<open>0 .. 49\<close>; the test \<^verbatim>\<open>price > pl and price <= price_levels[i+1]\<close>
  reads \<^verbatim>\<open>price_levels[50]\<close> at \<open>i = 49\<close> when its first conjunct holds, which raises
  IndexError. A loop that ends without \<^verbatim>\<open>break\<close> leaves \<^verbatim>\<open>price_level_index\<close>
  unbound.
\<close>

fun find_level_up :: "real \<Rightarrow> nat list \<Rightarrow> error + nat" where
  "find_level_up price [] = Inl UnboundLocalError"
| "find_level_up price (i # rest) =
     (if 10 ^ i < price then
        (if Suc i < 50 then
           (if price \<le> 10 ^ Suc i then Inr i else find_level_up price rest)
         else Inl IndexError)
      else find_level_up price rest)"

fun find_level_down :: "real \<Rightarrow> nat list \<Rightarrow> error + nat" where
  "find_level_down price [] = Inl UnboundLocalError"
| "find_level_down price (i # rest) =
     (if price < 10 powi (- int i) then
        (if Suc i < 50 then
           (if 10 powi (- int (Suc i)) \<le> price then Inr i else find_level_down price rest)
         else Inl IndexError)
      else find_level_down price rest)"

definition sqrt_price_to_tick :: "real \<Rightarrow> error + int" where
  "sqrt_price_to_tick sqrt_price =
     (let price = sqrt_price ^ 2
      in if price = 1 then Inr 0
         else if 1 < price then
           (case find_level_up price [0 ..< 50] of
              Inl e \<Rightarrow> Inl e
            | Inr price_level_index \<Rightarrow>
                (let price_level = 10 ^ price_level_index;
                     exp_at_curr_tick = int price_level_index - 6;
                     curr_additive_increment = 10 powi exp_at_curr_tick;
                     tick_level = int price_level_index * std_increment_distance;
                     additive_ticks = py_round ((price - price_level) / curr_additive_increment)
                 in Inr (tick_level + additive_ticks)))
         else
           (case find_level_down price [0 ..< 50] of
              Inl e \<Rightarrow> Inl e
            | Inr price_level_index \<Rightarrow>
                (let price_level = 10 powi (- int price_level_index);
                     exp_at_curr_tick = - 1 * (int price_level_index + 7);
                     curr_additive_increment = 10 powi exp_at_curr_tick;
                     tick_level = - int price_level_index * std_increment_distance;
                     additive_ticks = py_round ((price_level - price) / curr_additive_increment)
                 in Inr (tick_level - additive_ticks))))"

section \<open>Ticks, positions and the pool\<close>

text \<open>
  \<^verbatim>\<open>Tick\<close> and \<^verbatim>\<open>Position\<close> are mutable Python objects that several places refer
  to: the dicts \<^verbatim>\<open>ticks\<close> and \<^verbatim>\<open>all_ticks\<close> hold the same \<^verbatim>\<open>Tick\<close> object, a
  \<^verbatim>\<open>Position\<close> holds its two boundary \<^verbatim>\<open>Tick\<close> objects, and the caller keeps the
  \<^verbatim>\<open>Position\<close> that \<^verbatim>\<open>add_liquidity\<close> returned. The objects therefore live in two
  stores (\<open>tick_objs\<close>, \<open>position_objs\<close>), a reference is an index into its store, and
  an object is created by appending to the store; no object is ever freed.
  The attribute \<^verbatim>\<open>liquidity\<close> of a \<^verbatim>\<open>Position\<close> is the field \<open>position_liquidity\<close>.
\<close>

record Tick =
  idx :: int
  liquidity_net :: real
  liquidity_gross :: real
  fee_growth_outside_x :: real
  fee_growth_outside_y :: real

record Position =
  owner :: string
  position_liquidity :: real
  lower_tick :: nat
  upper_tick :: nat
  fee_growth_inside_x :: real
  fee_growth_inside_y :: real
  fees_x :: real
  fees_y :: real

text \<open>
  The pool. The dict \<^verbatim>\<open>ticks\<close> is an association list in the dict's iteration order,
  which \<^verbatim>\<open>find_next_tick\<close> depends on; \<^verbatim>\<open>positions\<close> and \<^verbatim>\<open>all_ticks\<close> are never
  iterated and are maps.
\<close>

record Pair =
  token_x :: string
  token_y :: string
  liquidity :: real
  init_sqrt_price :: real
  fee_tier :: real
  tick_spacing :: real
  curr_sqrt_price :: real
  curr_tick_idx :: int
  positions :: "(string \<times> int \<times> int) \<rightharpoonup> nat"
  ticks :: "(int \<times> nat) list"
  all_ticks :: "int \<rightharpoonup> nat"
  fee_growth_global_x :: real
  fee_growth_global_y :: real
  token_x_balance :: real
  token_y_balance :: real
  tick_objs :: "Tick list"
  position_objs :: "Position list"

text \<open>
  A method that mutates the pool returns its outcome (the exception raised or the value
  returned) together with the pool as the method left it: a Python exception does not
  undo the assignments made before it.
\<close>

type_synonym 'a result = "(error + 'a) \<times> Pair"

definition bind_result :: "'a result \<Rightarrow> ('a \<Rightarrow> Pair \<Rightarrow> 'b result) \<Rightarrow> 'b result" where
  "bind_result m f = (case m of (Inl e, s) \<Rightarrow> (Inl e, s) | (Inr v, s) \<Rightarrow> f v s)"

text \<open>\<^verbatim>\<open>Pair.__init__\<close>; it fails when \<^verbatim>\<open>sqrt_price_to_tick\<close> does.\<close>

definition init_pair :: "string \<Rightarrow> string \<Rightarrow> real \<Rightarrow> real \<Rightarrow> real \<Rightarrow> error + Pair" where
  "init_pair tx ty init_price fee spacing =
     (case sqrt_price_to_tick init_price of
        Inl e \<Rightarrow> Inl e
      | Inr tick \<Rightarrow>
          Inr \<lparr>token_x = tx, token_y = ty, liquidity = 0, init_sqrt_price = init_price,
               fee_tier = fee, tick_spacing = spacing, curr_sqrt_price = init_price,
               curr_tick_idx = tick, positions = Map.empty, ticks = [],
               all_ticks = Map.empty, fee_growth_global_x = 0, fee_growth_global_y = 0,
               token_x_balance = 0, token_y_balance = 0, tick_objs = [],
               position_objs = []\<rparr>)"

subsection \<open>Tick index\<close>

text \<open>\<^verbatim>\<open>sort_tick_map\<close>: \<^verbatim>\<open>dict(sorted(self.ticks.items()))\<close>; the keys are distinct.\<close>

definition sort_tick_map :: "Pair \<Rightarrow> Pair" where
  "sort_tick_map st = st\<lparr>ticks := sort_key fst (ticks st)\<rparr>"

text \<open>
  \<^verbatim>\<open>update_tick_map\<close>; \<^verbatim>\<open>self.ticks[tick_idx]\<close> raises KeyError for a missing key.
\<close>

definition update_tick_map :: "int \<Rightarrow> Pair \<Rightarrow> unit result" where
  "update_tick_map tick_idx st =
     (case map_of (ticks st) tick_idx of
        None \<Rightarrow> (Inl KeyError, st)
      | Some r \<Rightarrow>
          (Inr (),
           sort_tick_map
             (if liquidity_gross (tick_objs st ! r) = 0
              then st\<lparr>ticks := AList.delete tick_idx (ticks st)\<rparr> else st)))"

text \<open>Python list indexing \<^verbatim>\<open>keys[i]\<close>: a negative index counts from the end.\<close>

definition py_getitem :: "'a list \<Rightarrow> int \<Rightarrow> error + 'a" where
  "py_getitem keys i =
     (if 0 \<le> i \<and> i < int (length keys) then Inr (keys ! nat i)
      else if i < 0 \<and> - int (length keys) \<le> i then Inr (keys ! nat (int (length keys) + i))
      else Inl IndexError)"

text \<open>\<^verbatim>\<open>keys.index(v)\<close> for a \<open>v\<close> that occurs in \<open>keys\<close>.\<close>

fun py_index :: "int list \<Rightarrow> int \<Rightarrow> int" where
  "py_index [] v = 0"
| "py_index (k # ks) v = (if k = v then 0 else 1 + py_index ks v)"

text \<open>
  \<^verbatim>\<open>find_next_tick\<close>. The \<^verbatim>\<open>for key in keys\<close> loop is the recursion over the keys still
  to visit; \<open>next_tick\<close> is \<open>None\<close> while \<^verbatim>\<open>found == 0\<close>. The branch \<^verbatim>\<open>key == tick_idx\<close>
  reads \<^verbatim>\<open>keys[position + 1]\<close> or \<^verbatim>\<open>keys[position - 1]\<close> and leaves the loop.
\<close>

fun find_next_tick_loop ::
  "int list \<Rightarrow> int \<Rightarrow> bool \<Rightarrow> int list \<Rightarrow> int option \<Rightarrow> error + int option" where
  "find_next_tick_loop keys tick_idx higher [] next_tick = Inr next_tick"
| "find_next_tick_loop keys tick_idx higher (key # rest) next_tick =
     (if key < tick_idx \<and> \<not> higher then
        find_next_tick_loop keys tick_idx higher rest (Some key)
      else if key = tick_idx then
        (let position = py_index keys tick_idx
         in if higher then
              (case py_getitem keys (position + 1) of
                 Inl e \<Rightarrow> Inl e | Inr k \<Rightarrow> Inr (Some k))
            else
              (case py_getitem keys (position - 1) of
                 Inl e \<Rightarrow> Inl e | Inr k \<Rightarrow> Inr (Some k)))
      else if tick_idx < key \<and> higher then Inr (Some key)
      else find_next_tick_loop keys tick_idx higher rest next_tick)"

definition find_next_tick :: "Pair \<Rightarrow> int \<Rightarrow> bool \<Rightarrow> error + int option" where
  "find_next_tick st tick_idx higher =
     (let keys = map fst (ticks st)
      in find_next_tick_loop keys tick_idx higher keys None)"

subsection \<open>Fee accounting\<close>

definition fee_growth_outside :: "Pair \<Rightarrow> int \<Rightarrow> real \<times> real" where
  "fee_growth_outside st tick_idx =
     (case map_of (ticks st) tick_idx of
        None \<Rightarrow>
          (if tick_idx \<le> curr_tick_idx st
           then (fee_growth_global_x st, fee_growth_global_y st) else (0, 0))
      | Some r \<Rightarrow>
          (fee_growth_global_x st - fee_growth_outside_x (tick_objs st ! r),
           fee_growth_global_y st - fee_growth_outside_y (tick_objs st ! r)))"

definition fee_within_range :: "Pair \<Rightarrow> Tick \<Rightarrow> Tick \<Rightarrow> real \<times> real" where
  "fee_within_range st lower upper =
     (let fee_below_lower =
            (if idx lower \<le> curr_tick_idx st
             then (fee_growth_outside_x lower, fee_growth_outside_y lower)
             else (fee_growth_global_x st - fee_growth_outside_x lower,
                   fee_growth_global_y st - fee_growth_outside_y lower));
          fee_above_upper =
            (if idx upper \<le> curr_tick_idx st
             then (fee_growth_global_x st - fee_growth_outside_x upper,
                   fee_growth_global_y st - fee_growth_outside_y upper)
             else (fee_growth_outside_x upper, fee_growth_outside_y upper))
      in (fee_growth_global_x st - fst fee_above_upper - fst fee_below_lower,
          fee_growth_global_y st - snd fee_above_upper - snd fee_below_lower))"

text \<open>
  \<^verbatim>\<open>position.lower_tick.idx\<close> and \<^verbatim>\<open>position.upper_tick.idx\<close>: the index stored in the
  boundary objects of a position.
\<close>

definition lower_idx :: "Pair \<Rightarrow> Position \<Rightarrow> int" where
  "lower_idx st p = idx (tick_objs st ! lower_tick p)"

definition upper_idx :: "Pair \<Rightarrow> Position \<Rightarrow> int" where
  "upper_idx st p = idx (tick_objs st ! upper_tick p)"

text \<open>
  The call \<^verbatim>\<open>self.fee_within_range(self.all_ticks[position.lower_tick.idx],
  self.all_ticks[position.upper_tick.idx])\<close> of \<^verbatim>\<open>get_fees\<close> and \<^verbatim>\<open>collect_fees\<close>; a
  boundary missing from \<^verbatim>\<open>all_ticks\<close> raises KeyError.
\<close>

definition all_ticks_fee_within_range :: "Pair \<Rightarrow> Position \<Rightarrow> error + real \<times> real" where
  "all_ticks_fee_within_range st p =
     (case all_ticks st (lower_idx st p) of
        None \<Rightarrow> Inl KeyError
      | Some rl \<Rightarrow>
          (case all_ticks st (upper_idx st p) of
             None \<Rightarrow> Inl KeyError
           | Some ru \<Rightarrow> Inr (fee_within_range st (tick_objs st ! rl) (tick_objs st ! ru))))"

definition get_fees :: "Pair \<Rightarrow> Position \<Rightarrow> error + real \<times> real" where
  "get_fees st p =
     (case all_ticks_fee_within_range st p of
        Inl e \<Rightarrow> Inl e
      | Inr (fee_within_range_x, fee_within_range_y) \<Rightarrow>
          Inr ((fee_within_range_x - fee_growth_inside_x p) * position_liquidity p,
               (fee_within_range_y - fee_growth_inside_y p) * position_liquidity p))"

text \<open>\<^verbatim>\<open>collect_fees\<close>; the argument is the reference of the position object.\<close>

definition collect_fees :: "nat \<Rightarrow> Pair \<Rightarrow> (real \<times> real) result" where
  "collect_fees position st =
     (let p = position_objs st ! position
      in case get_fees st p of
           Inl e \<Rightarrow> (Inl e, st)
         | Inr (fx, fy) \<Rightarrow>
             (case all_ticks_fee_within_range st p of
                Inl e \<Rightarrow> (Inl e, st)
              | Inr (fee_within_range_x, fee_within_range_y) \<Rightarrow>
                  (Inr (fx, fy),
                   st\<lparr>position_objs := (position_objs st)
                        [position := p\<lparr>fee_growth_inside_x := fee_within_range_x,
                                       fee_growth_inside_y := fee_within_range_y,
                                       fees_x := fees_x p + fx,
                                       fees_y := fees_y p + fy\<rparr>]\<rparr>)))"

subsection \<open>Liquidity manager\<close>

text \<open>
  \<^verbatim>\<open>liquidity_to_tokens\<close>; the optional argument \<^verbatim>\<open>sqrt_price\<close> defaults to \<^verbatim>\<open>None\<close>,
  which selects \<^verbatim>\<open>self.curr_sqrt_price\<close>. The square-root price of the upper tick is
  computed first, then the one of the lower tick; the division raises ZeroDivisionError
  for a zero divisor.
\<close>

definition liquidity_to_tokens ::
  "Pair \<Rightarrow> real \<Rightarrow> int \<Rightarrow> int \<Rightarrow> real option \<Rightarrow> error + real \<times> real" where
  "liquidity_to_tokens st liq lower_tick_idx upper_tick_idx sqrt_price =
     (case tick_sqrt_price upper_tick_idx of
        Inl e \<Rightarrow> Inl e
      | Inr p_b \<Rightarrow>
          (case tick_sqrt_price lower_tick_idx of
             Inl e \<Rightarrow> Inl e
           | Inr p_a \<Rightarrow>
               (let p_c = (case sqrt_price of None \<Rightarrow> curr_sqrt_price st | Some sp \<Rightarrow> sp)
                in if p_b * p_c = 0 then Inl ZeroDivisionError
                   else
                     (let delta_x = liq * (p_b - p_c) / (p_b * p_c);
                          delta_y = liq * (p_c - p_a)
                      in Inr (max delta_x 0, max delta_y 0)))))"

text \<open>
  The pair of assignments \<^verbatim>\<open>self.ticks[i].liquidity_net += n\<close> and
  \<^verbatim>\<open>self.ticks[i].liquidity_gross += g\<close> on the tick object with reference \<open>r\<close>
  (a subtraction is the addition of the negated amount).
\<close>

definition adjust_tick :: "nat \<Rightarrow> real \<Rightarrow> real \<Rightarrow> Pair \<Rightarrow> Pair" where
  "adjust_tick r n g st =
     st\<lparr>tick_objs := (tick_objs st)
          [r := (tick_objs st ! r)\<lparr>liquidity_net := liquidity_net (tick_objs st ! r) + n,
                                  liquidity_gross := liquidity_gross (tick_objs st ! r) + g\<rparr>]\<rparr>"

text \<open>
  One boundary in the \<^verbatim>\<open>else\<close> branch of \<^verbatim>\<open>add_liquidity\<close> (lines 125--139 for the lower
  boundary with \<open>n = liquidity\<close>, lines 141--155 for the upper one with \<open>n = - liquidity\<close>):
  a tick missing from \<^verbatim>\<open>ticks\<close> is created, stored in \<^verbatim>\<open>ticks\<close> and in \<^verbatim>\<open>all_ticks\<close>;
  a tick that is there is adjusted.
\<close>

definition init_or_adjust_tick :: "int \<Rightarrow> real \<Rightarrow> real \<Rightarrow> Pair \<Rightarrow> Pair" where
  "init_or_adjust_tick tick_idx n liq st =
     (case map_of (ticks st) tick_idx of
        None \<Rightarrow>
          (let (fx, fy) = fee_growth_outside st tick_idx;
               r = length (tick_objs st)
           in st\<lparr>tick_objs := tick_objs st @
                    [\<lparr>idx = tick_idx, liquidity_net = n, liquidity_gross = liq,
                      fee_growth_outside_x = fx, fee_growth_outside_y = fy\<rparr>],
                  ticks := ticks st @ [(tick_idx, r)],
                  all_ticks := (all_ticks st)(tick_idx \<mapsto> r)\<rparr>)
      | Some r \<Rightarrow> adjust_tick r n liq st)"

text \<open>\<^verbatim>\<open>self.positions[key].liquidity += liquidity\<close> on the position object \<open>r\<close>.\<close>

definition add_position_liquidity :: "nat \<Rightarrow> real \<Rightarrow> Pair \<Rightarrow> Pair" where
  "add_position_liquidity r liq st =
     st\<lparr>position_objs := (position_objs st)
          [r := (position_objs st ! r)
                  \<lparr>position_liquidity := position_liquidity (position_objs st ! r) + liq\<rparr>]\<rparr>"

text \<open>
  The end of \<^verbatim>\<open>add_liquidity\<close> and of \<^verbatim>\<open>remove_liquidity\<close>: the token deltas are added
  to (\<open>sign = 1\<close>) or subtracted from (\<open>sign = - 1\<close>) the balances.
\<close>

definition move_balances :: "real \<Rightarrow> real \<Rightarrow> int \<Rightarrow> int \<Rightarrow> Pair \<Rightarrow> unit result" where
  "move_balances sign liq lower_tick_idx upper_tick_idx st =
     (case liquidity_to_tokens st liq lower_tick_idx upper_tick_idx None of
        Inl e \<Rightarrow> (Inl e, st)
      | Inr (delta_x, delta_y) \<Rightarrow>
          (Inr (), st\<lparr>token_x_balance := token_x_balance st + sign * delta_x,
                      token_y_balance := token_y_balance st + sign * delta_y\<rparr>))"

text \<open>\<^verbatim>\<open>add_liquidity\<close>; it returns the reference of the position.\<close>

definition add_liquidity :: "string \<Rightarrow> real \<Rightarrow> int \<Rightarrow> int \<Rightarrow> Pair \<Rightarrow> nat result" where
  "add_liquidity own liq lower_tick_idx upper_tick_idx st0 =
     (let st1 = (if lower_tick_idx \<le> curr_tick_idx st0 \<and> curr_tick_idx st0 < upper_tick_idx
                 then st0\<lparr>liquidity := liquidity st0 + liq\<rparr> else st0);
          key = (own, lower_tick_idx, upper_tick_idx)
      in bind_result
           (case (positions st1 key, map_of (ticks st1) lower_tick_idx,
                  map_of (ticks st1) upper_tick_idx) of
              (Some position, Some rl, Some ru) \<Rightarrow>
                bind_result (collect_fees position st1)
                  (\<lambda>_ st2. (Inr position,
                     adjust_tick ru (- liq) liq
                       (adjust_tick rl liq liq (add_position_liquidity position liq st2))))
            | _ \<Rightarrow>
                (let st2 = init_or_adjust_tick upper_tick_idx (- liq) liq
                             (init_or_adjust_tick lower_tick_idx liq liq st1)
                 in case positions st2 key of
                      Some position \<Rightarrow>
                        bind_result (collect_fees position st2)
                          (\<lambda>_ st3. (Inr position,
                             (add_position_liquidity position liq st3)
                               \<lparr>positions := (positions st3)(key \<mapsto> position)\<rparr>))
                    | None \<Rightarrow>
                        (case (map_of (ticks st2) lower_tick_idx,
                               map_of (ticks st2) upper_tick_idx) of
                           (Some rl, Some ru) \<Rightarrow>
                             (let (fee_within_range_x, fee_within_range_y) =
                                    fee_within_range st2 (tick_objs st2 ! rl) (tick_objs st2 ! ru);
                                  position = length (position_objs st2)
                              in (Inr position,
                                  st2\<lparr>position_objs := position_objs st2 @
                                         [\<lparr>owner = own, position_liquidity = liq,
                                           lower_tick = rl, upper_tick = ru,
                                           fee_growth_inside_x = fee_within_range_x,
                                           fee_growth_inside_y = fee_within_range_y,
                                           fees_x = 0, fees_y = 0\<rparr>],
                                       positions := (positions st2)(key \<mapsto> position)\<rparr>))
                         | _ \<Rightarrow> (Inl KeyError, st2))))
           (\<lambda>position st4.
              bind_result
                (move_balances 1 liq lower_tick_idx upper_tick_idx (sort_tick_map st4))
                (\<lambda>_ st5. (Inr position, st5))))"

text \<open>
  One boundary in \<^verbatim>\<open>remove_liquidity\<close> (lines 211--213 and 215--217): the tick is read
  from \<^verbatim>\<open>ticks\<close> (KeyError when it is not there), adjusted, and \<^verbatim>\<open>update_tick_map\<close>
  drops it when its gross liquidity is zero.
\<close>

definition remove_from_tick :: "int \<Rightarrow> real \<Rightarrow> real \<Rightarrow> Pair \<Rightarrow> unit result" where
  "remove_from_tick tick_idx n liq st =
     (case map_of (ticks st) tick_idx of
        None \<Rightarrow> (Inl KeyError, st)
      | Some r \<Rightarrow> update_tick_map tick_idx (adjust_tick r n (- liq) st))"

text \<open>\<^verbatim>\<open>del self.positions[key]\<close>; KeyError when the key is not there.\<close>

definition del_position :: "string \<times> int \<times> int \<Rightarrow> Pair \<Rightarrow> unit result" where
  "del_position key st =
     (case positions st key of
        None \<Rightarrow> (Inl KeyError, st)
      | Some _ \<Rightarrow> (Inr (), st\<lparr>positions := (positions st)(key := None)\<rparr>))"

definition remove_liquidity :: "nat \<Rightarrow> real \<Rightarrow> Pair \<Rightarrow> unit result" where
  "remove_liquidity position liq st0 =
     (let p = position_objs st0 ! position;
          lo = lower_idx st0 p;
          up = upper_idx st0 p;
          st1 = (if lo \<le> curr_tick_idx st0 \<and> curr_tick_idx st0 < up
                 then st0\<lparr>liquidity := liquidity st0 - liq\<rparr> else st0)
      in case get_fees st1 p of
           Inl e \<Rightarrow> (Inl e, st1)
         | Inr (fx, fy) \<Rightarrow>
             bind_result
               (if position_liquidity p = liq \<and> fx = 0 \<and> fy = 0
                then del_position (owner p, lo, up) st1
                else bind_result (collect_fees position st1)
                       (\<lambda>_ st2. (Inr (), add_position_liquidity position (- liq) st2)))
               (\<lambda>_ st3. bind_result (remove_from_tick lo (- liq) liq st3)
                  (\<lambda>_ st4. bind_result (remove_from_tick up liq liq st4)
                     (\<lambda>_ st5. move_balances (- 1) liq lo up st5))))"

definition withdraw_fees :: "nat \<Rightarrow> Pair \<Rightarrow> (real \<times> real) result" where
  "withdraw_fees position st0 =
     bind_result (collect_fees position st0)
       (\<lambda>_ st1.
          let p = position_objs st1 ! position;
              fx = fees_x p;
              fy = fees_y p;
              st2 = st1\<lparr>position_objs :=
                          (position_objs st1)[position := p\<lparr>fees_x := 0, fees_y := 0\<rparr>]\<rparr>
          in bind_result
               (if position_liquidity p = 0
                then del_position (owner p, lower_idx st2 p, upper_idx st2 p) st2
                else (Inr (), st2))
               (\<lambda>_ st3. (Inr (fx, fy),
                          st3\<lparr>token_x_balance := token_x_balance st3 - fx,
                              token_y_balance := token_y_balance st3 - fy\<rparr>)))"

subsection \<open>Swap engine\<close>

definition deduct_fees :: "Pair \<Rightarrow> real \<Rightarrow> real \<times> real" where
  "deduct_fees st amount_in =
     (let fees_deducted = of_int (py_int (amount_in * fee_tier st));
          amount_leftover = amount_in - fees_deducted
      in (amount_leftover, fees_deducted))"

definition add_fees :: "Pair \<Rightarrow> real \<Rightarrow> error + real \<times> real" where
  "add_fees st amount_used_for_swap =
     (if 1 - fee_tier st = 0 then Inl ZeroDivisionError
      else
        (let amount_used = amount_used_for_swap / (1 - fee_tier st);
             fees = amount_used - amount_used_for_swap
         in Inr (amount_used, fees)))"

text \<open>
  \<^verbatim>\<open>revert_swap\<close> runs \<^verbatim>\<open>self.__dict__.update(original_state)\<close>, where
  \<^verbatim>\<open>original_state = self.__dict__.copy()\<close> was taken on entry to \<^verbatim>\<open>swap\<close>. The copy is
  shallow: every attribute is bound again to what it was bound to, and the objects
  themselves are not copied. No statement of the swap code inserts into, deletes from or
  rebinds \<^verbatim>\<open>ticks\<close>, \<^verbatim>\<open>all_ticks\<close> or \<^verbatim>\<open>positions\<close>, so all fields of the pool take
  their old values, while the \<^verbatim>\<open>Tick\<close> and \<^verbatim>\<open>Position\<close> objects stay as the swap left
  them.
\<close>

definition revert_swap :: "Pair \<Rightarrow> Pair \<Rightarrow> Pair" where
  "revert_swap st original_state =
     original_state\<lparr>tick_objs := tick_objs st, position_objs := position_objs st\<rparr>"

text \<open>The variables of the \<^verbatim>\<open>while\<close> loops of \<^verbatim>\<open>swap_x_for_y\<close> and \<^verbatim>\<open>swap_y_for_x\<close>.\<close>

record swap_vars =
  amount_out :: real
  amount_remaining :: real
  next_tick :: int
  lower_tick_sqrt_price :: real

text \<open>
  The crossing branch, after the fee growth is updated; \<open>sign\<close> is \<open>- 1\<close> in
  \<^verbatim>\<open>swap_x_for_y\<close> (\<^verbatim>\<open>self.liquidity - liquidity_net\<close>) and \<open>1\<close> in \<^verbatim>\<open>swap_y_for_x\<close>.
  The \<^verbatim>\<open>print\<close> of the liquidity change reads \<^verbatim>\<open>self.ticks[self.curr_tick_idx]\<close>
  (KeyError for a missing key) and divides by \<^verbatim>\<open>self.liquidity\<close>, which is not zero
  here because the iteration has divided by it before.
\<close>

definition cross_tick :: "bool \<Rightarrow> real \<Rightarrow> swap_vars \<Rightarrow> Pair \<Rightarrow> swap_vars result" where
  "cross_tick higher sign v st0 =
     (let st1 = st0\<lparr>curr_tick_idx := next_tick v\<rparr>
      in case map_of (ticks st1) (curr_tick_idx st1) of
           None \<Rightarrow> (Inl KeyError, st1)
         | Some r \<Rightarrow>
             (case find_next_tick st1 (curr_tick_idx st1) higher of
                Inl e \<Rightarrow> (Inl e, st1)
              | Inr None \<Rightarrow> (Inl InsufficientLiquidityException, st1)
              | Inr (Some nt) \<Rightarrow>
                  (let st2 = st1\<lparr>curr_sqrt_price := lower_tick_sqrt_price v,
                                 liquidity := liquidity st1
                                   + sign * liquidity_net (tick_objs st1 ! r)\<rparr>
                   in if liquidity st2 = 0 then (Inl InsufficientLiquidityException, st2)
                      else
                        (case tick_sqrt_price nt of
                           Inl e \<Rightarrow> (Inl e, st2)
                         | Inr p \<Rightarrow>
                             (let (fx, fy) = fee_growth_outside st2 (curr_tick_idx st2)
                              in (Inr (v\<lparr>next_tick := nt, lower_tick_sqrt_price := p\<rparr>),
                                  st2\<lparr>tick_objs := (tick_objs st2)
                                       [r := (tick_objs st2 ! r)
                                          \<lparr>fee_growth_outside_x := fx,
                                           fee_growth_outside_y := fy\<rparr>]\<rparr>))))))"

text \<open>One iteration of the loop of \<^verbatim>\<open>swap_x_for_y\<close>.\<close>

definition swap_x_for_y_step :: "real \<Rightarrow> swap_vars \<Rightarrow> Pair \<Rightarrow> swap_vars result" where
  "swap_x_for_y_step sqrt_price_limit v st =
     (let (amount_remaining_after_fees, fees_deducted) = deduct_fees st (amount_remaining v)
      in if liquidity st = 0 then (Inl ZeroDivisionError, st)
         else if curr_sqrt_price st = 0 then (Inl ZeroDivisionError, st)
         else
           (let delta_inv_sqrt_price = amount_remaining_after_fees / liquidity st;
                inv_sqrt_price = 1 / curr_sqrt_price st;
                updated_inv_sqrt_price = inv_sqrt_price + delta_inv_sqrt_price
            in if updated_inv_sqrt_price = 0 then (Inl ZeroDivisionError, st)
               else
                 (let updated_sqrt_price = 1 / updated_inv_sqrt_price
                  in bind_result
                       (if lower_tick_sqrt_price v \<le> updated_sqrt_price then
                          (let delta_sqrt_price = curr_sqrt_price st - updated_sqrt_price;
                               v1 = v\<lparr>amount_out := amount_out v
                                        + of_int (py_int (delta_sqrt_price * liquidity st)),
                                      amount_remaining := 0\<rparr>;
                               st1 = st\<lparr>fee_growth_global_x := fee_growth_global_x st
                                          + fees_deducted / liquidity st,
                                        curr_sqrt_price := updated_sqrt_price\<rparr>
                           in case sqrt_price_to_tick (curr_sqrt_price st1) of
                                Inl e \<Rightarrow> (Inl e, st1)
                              | Inr t \<Rightarrow> (Inr v1, st1\<lparr>curr_tick_idx := t\<rparr>))
                        else if lower_tick_sqrt_price v = 0 then (Inl ZeroDivisionError, st)
                        else
                          (let amount_used_for_swap =
                                 (1 / lower_tick_sqrt_price v - 1 / curr_sqrt_price st)
                                 * liquidity st
                           in case add_fees st amount_used_for_swap of
                                Inl e \<Rightarrow> (Inl e, st)
                              | Inr (amount_used, fees_deducted) \<Rightarrow>
                                  (let delta_sqrt_price =
                                         curr_sqrt_price st - lower_tick_sqrt_price v;
                                       v1 = v\<lparr>amount_out := amount_out v
                                                + of_int (py_int (delta_sqrt_price * liquidity st)),
                                              amount_remaining := amount_remaining v - amount_used\<rparr>;
                                       st1 = st\<lparr>fee_growth_global_x := fee_growth_global_x st
                                                  + fees_deducted / liquidity st\<rparr>
                                   in cross_tick False (- 1) v1 st1)))
                       (\<lambda>v' st'. if curr_sqrt_price st' \<le> sqrt_price_limit
                                  then (Inl SlippageTooHighException, st')
                                  else (Inr v', st')))))"

text \<open>One iteration of the loop of \<^verbatim>\<open>swap_y_for_x\<close>.\<close>

definition swap_y_for_x_step :: "real \<Rightarrow> swap_vars \<Rightarrow> Pair \<Rightarrow> swap_vars result" where
  "swap_y_for_x_step sqrt_price_limit v st =
     (let (amount_remaining_after_fees, fees_deducted) = deduct_fees st (amount_remaining v)
      in if liquidity st = 0 then (Inl ZeroDivisionError, st)
         else
           (let delta_sqrt_price = amount_remaining_after_fees / liquidity st;
                updated_sqrt_price = curr_sqrt_price st + delta_sqrt_price
            in bind_result
                 (if updated_sqrt_price \<le> lower_tick_sqrt_price v then
                    (if curr_sqrt_price st = 0 \<or> updated_sqrt_price = 0
                     then (Inl ZeroDivisionError, st)
                     else
                       (let delta_inv_sqrt_price =
                              1 / curr_sqrt_price st - 1 / updated_sqrt_price;
                            v1 = v\<lparr>amount_out := amount_out v
                                     + delta_inv_sqrt_price * liquidity st,
                                   amount_remaining := 0\<rparr>;
                            st1 = st\<lparr>fee_growth_global_y := fee_growth_global_y st
                                       + fees_deducted / liquidity st,
                                     curr_sqrt_price := updated_sqrt_price\<rparr>
                        in case sqrt_price_to_tick (curr_sqrt_price st1) of
                             Inl e \<Rightarrow> (Inl e, st1)
                           | Inr t \<Rightarrow> (Inr v1, st1\<lparr>curr_tick_idx := t\<rparr>)))
                  else
                    (let amount_used_for_swap =
                           (lower_tick_sqrt_price v - curr_sqrt_price st) * liquidity st
                     in case add_fees st amount_used_for_swap of
                          Inl e \<Rightarrow> (Inl e, st)
                        | Inr (amount_used, fees_deducted) \<Rightarrow>
                            (if curr_sqrt_price st = 0 \<or> lower_tick_sqrt_price v = 0
                             then (Inl ZeroDivisionError, st)
                             else
                               (let delta_inv_sqrt_price =
                                      1 / curr_sqrt_price st - 1 / lower_tick_sqrt_price v;
                                    v1 = v\<lparr>amount_out := amount_out v
                                             + delta_inv_sqrt_price * liquidity st,
                                           amount_remaining := amount_remaining v - amount_used\<rparr>;
                                    st1 = st\<lparr>fee_growth_global_y := fee_growth_global_y st
                                               + fees_deducted / liquidity st\<rparr>
                                in cross_tick True 1 v1 st1))))
                 (\<lambda>v' st'. if sqrt_price_limit \<le> curr_sqrt_price st'
                            then (Inl SlippageTooHighException, st')
                            else (Inr v', st'))))"

text \<open>
  The \<^verbatim>\<open>while amount_remaining > 0\<close> loops. Nothing in the source bounds the number of
  iterations, so a run that does not end has the value \<open>None\<close>.
\<close>

partial_function (option) swap_x_for_y_loop ::
  "real \<Rightarrow> swap_vars \<Rightarrow> Pair \<Rightarrow> real result option" where
  "swap_x_for_y_loop sqrt_price_limit v st =
     (if 0 < amount_remaining v then
        (case swap_x_for_y_step sqrt_price_limit v st of
           (Inl e, st') \<Rightarrow> Some (Inl e, st')
         | (Inr v', st') \<Rightarrow> swap_x_for_y_loop sqrt_price_limit v' st')
      else Some (Inr (amount_out v), st))"

partial_function (option) swap_y_for_x_loop ::
  "real \<Rightarrow> swap_vars \<Rightarrow> Pair \<Rightarrow> real result option" where
  "swap_y_for_x_loop sqrt_price_limit v st =
     (if 0 < amount_remaining v then
        (case swap_y_for_x_step sqrt_price_limit v st of
           (Inl e, st') \<Rightarrow> Some (Inl e, st')
         | (Inr v', st') \<Rightarrow> swap_y_for_x_loop sqrt_price_limit v' st')
      else Some (Inr (amount_out v), st))"

definition swap_x_for_y :: "real \<Rightarrow> real \<Rightarrow> Pair \<Rightarrow> real result option" where
  "swap_x_for_y amount_in sqrt_price_limit st =
     (case find_next_tick st (curr_tick_idx st) False of
        Inl e \<Rightarrow> Some (Inl e, st)
      | Inr None \<Rightarrow> Some (Inl InsufficientLiquidityException, st)
      | Inr (Some nt) \<Rightarrow>
          (case tick_sqrt_price nt of
             Inl e \<Rightarrow> Some (Inl e, st)
           | Inr p \<Rightarrow>
               swap_x_for_y_loop sqrt_price_limit
                 \<lparr>amount_out = 0, amount_remaining = amount_in, next_tick = nt,
                  lower_tick_sqrt_price = p\<rparr> st))"

definition swap_y_for_x :: "real \<Rightarrow> real \<Rightarrow> Pair \<Rightarrow> real result option" where
  "swap_y_for_x amount_in sqrt_price_limit st =
     (case find_next_tick st (curr_tick_idx st) True of
        Inl e \<Rightarrow> Some (Inl e, st)
      | Inr None \<Rightarrow> Some (Inl InsufficientLiquidityException, st)
      | Inr (Some nt) \<Rightarrow>
          (case tick_sqrt_price nt of
             Inl e \<Rightarrow> Some (Inl e, st)
           | Inr p \<Rightarrow>
               swap_y_for_x_loop sqrt_price_limit
                 \<lparr>amount_out = 0, amount_remaining = amount_in, next_tick = nt,
                  lower_tick_sqrt_price = p\<rparr> st))"

text \<open>
  The body of the \<^verbatim>\<open>try\<close> statement of \<^verbatim>\<open>swap\<close>; \<open>original_state\<close> is the snapshot
  taken before it.
\<close>

definition swap_try ::
  "string \<Rightarrow> real \<Rightarrow> real \<Rightarrow> bool \<Rightarrow> Pair \<Rightarrow> Pair \<Rightarrow> real result option" where
  "swap_try token_in_addr amount_in sqrt_price_limit simulate original_state st =
     (case (if token_in_addr = token_x st
            then (case swap_x_for_y amount_in sqrt_price_limit st of
                    None \<Rightarrow> None
                  | Some (Inl e, st1) \<Rightarrow> Some (Inl e, st1)
                  | Some (Inr out, st1) \<Rightarrow>
                      Some (Inr out,
                            if \<not> simulate
                            then st1\<lparr>token_x_balance := token_x_balance st1 + amount_in,
                                     token_y_balance := token_y_balance st1 - out\<rparr>
                            else st1))
            else (case swap_y_for_x amount_in sqrt_price_limit st of
                    None \<Rightarrow> None
                  | Some (Inl e, st1) \<Rightarrow> Some (Inl e, st1)
                  | Some (Inr out, st1) \<Rightarrow>
                      Some (Inr out,
                            if \<not> simulate
                            then st1\<lparr>token_y_balance := token_y_balance st1 + amount_in,
                                     token_x_balance := token_x_balance st1 - out\<rparr>
                            else st1))) of
        None \<Rightarrow> None
      | Some (Inl e, st2) \<Rightarrow> Some (Inl e, st2)
      | Some (Inr out, st2) \<Rightarrow>
          Some (Inr out, if simulate then revert_swap st2 original_state else st2))"

text \<open>
  \<^verbatim>\<open>swap\<close>. The handler \<^verbatim>\<open>except Exception\<close> prints a message and calls
  \<^verbatim>\<open>revert_swap\<close>; the method then ends without a \<^verbatim>\<open>return\<close> statement, so the call
  returns \<^verbatim>\<open>None\<close>. The result is \<open>Some amount_out\<close> for a returned amount and \<open>None\<close>
  for Python's \<^verbatim>\<open>None\<close>.
\<close>

definition swap ::
  "string \<Rightarrow> real \<Rightarrow> real \<Rightarrow> bool \<Rightarrow> Pair \<Rightarrow> real option result option" where
  "swap token_in_addr amount_in sqrt_price_limit simulate st =
     (let original_state = st
      in case swap_try token_in_addr amount_in sqrt_price_limit simulate original_state st of
           None \<Rightarrow> None
         | Some (Inl e, st1) \<Rightarrow> Some (Inr None, revert_swap st1 original_state)
         | Some (Inr out, st1) \<Rightarrow> Some (Inr (Some out), st1))"

section \<open>A pool built through the public methods\<close>

text \<open>
  The states below are the ones reached by
  \<^verbatim>\<open>Pair('x', 'y', 1, 0.5, 10000)\<close>,
  \<^verbatim>\<open>add_liquidity('alice', 9, -3600000, 440000)\<close> and
  \<^verbatim>\<open>add_liquidity('bob', 27, -1900000, 210000)\<close>
  (lemmas \<open>init_pool0\<close>, \<open>add_alice\<close>, \<open>add_bob\<close>). The four tick indices are
  multiples of the tick spacing and have the square-root prices 0.8, 0.9, 1.1 and 1.2.
\<close>

definition pool0 :: Pair where
  "pool0 =
     \<lparr>token_x = ''x'', token_y = ''y'', liquidity = 0, init_sqrt_price = 1,
      fee_tier = 1 / 2, tick_spacing = 10000, curr_sqrt_price = 1, curr_tick_idx = 0,
      positions = Map.empty, ticks = [], all_ticks = Map.empty,
      fee_growth_global_x = 0, fee_growth_global_y = 0,
      token_x_balance = 0, token_y_balance = 0, tick_objs = [], position_objs = []\<rparr>"

definition pool1 :: Pair where
  "pool1 =
     \<lparr>token_x = ''x'', token_y = ''y'', liquidity = 9, init_sqrt_price = 1,
      fee_tier = 1 / 2, tick_spacing = 10000, curr_sqrt_price = 1, curr_tick_idx = 0,
      positions = [(''alice'', - 3600000, 440000) \<mapsto> 0],
      ticks = [(- 3600000, 0), (440000, 1)],
      all_ticks = [- 3600000 \<mapsto> 0, 440000 \<mapsto> 1],
      fee_growth_global_x = 0, fee_growth_global_y = 0,
      token_x_balance = 3 / 2, token_y_balance = 9 / 5,
      tick_objs =
        [\<lparr>idx = - 3600000, liquidity_net = 9, liquidity_gross = 9,
          fee_growth_outside_x = 0, fee_growth_outside_y = 0\<rparr>,
         \<lparr>idx = 440000, liquidity_net = - 9, liquidity_gross = 9,
          fee_growth_outside_x = 0, fee_growth_outside_y = 0\<rparr>],
      position_objs =
        [\<lparr>owner = ''alice'', position_liquidity = 9, lower_tick = 0, upper_tick = 1,
          fee_growth_inside_x = 0, fee_growth_inside_y = 0, fees_x = 0, fees_y = 0\<rparr>]\<rparr>"

definition pool2 :: Pair where
  "pool2 =
     pool1\<lparr>liquidity := 36,
       positions := [(''alice'', - 3600000, 440000) \<mapsto> 0, (''bob'', - 1900000, 210000) \<mapsto> 1],
       ticks := [(- 3600000, 0), (- 1900000, 2), (210000, 3), (440000, 1)],
       all_ticks := [- 3600000 \<mapsto> 0, 440000 \<mapsto> 1, - 1900000 \<mapsto> 2, 210000 \<mapsto> 3],
       token_x_balance := 87 / 22, token_y_balance := 9 / 2,
       tick_objs := tick_objs pool1 @
         [\<lparr>idx = - 1900000, liquidity_net = 27, liquidity_gross = 27,
           fee_growth_outside_x = 0, fee_growth_outside_y = 0\<rparr>,
          \<lparr>idx = 210000, liquidity_net = - 27, liquidity_gross = 27,
           fee_growth_outside_x = 0, fee_growth_outside_y = 0\<rparr>],
       position_objs := position_objs pool1 @
         [\<lparr>owner = ''bob'', position_liquidity = 27, lower_tick = 2, upper_tick = 3,
           fee_growth_inside_x = 0, fee_growth_inside_y = 0, fees_x = 0, fees_y = 0\<rparr>]\<rparr>"

text \<open>
  \<open>pool2_crossed\<close> is \<open>pool2\<close> after one iteration of \<^verbatim>\<open>swap_x_for_y\<close> has crossed
  the tick -1900000; \<open>pool3\<close> is the pool after the committed
  \<^verbatim>\<open>swap('x', 7.9, 0)\<close>, \<open>pool4\<close> after \<^verbatim>\<open>remove_liquidity(bob, 27)\<close> and \<open>pool5\<close>
  after \<^verbatim>\<open>swap('x', 2, 0)\<close>.
\<close>

definition pool2_crossed :: Pair where
  "pool2_crossed =
     pool2\<lparr>liquidity := 9, curr_sqrt_price := 9 / 10, curr_tick_idx := - 1900000,
       fee_growth_global_x := 1 / 9,
       tick_objs := (tick_objs pool2)
         [2 := \<lparr>idx = - 1900000, liquidity_net = 27, liquidity_gross = 27,
                fee_growth_outside_x = 1 / 9, fee_growth_outside_y = 0\<rparr>]\<rparr>"

definition pool3 :: Pair where
  "pool3 = pool2_crossed\<lparr>token_x_balance := 652 / 55, token_y_balance := 3 / 2\<rparr>"

definition pool4 :: Pair where
  "pool4 =
     pool3\<lparr>liquidity := - 18,
       positions := [(''alice'', - 3600000, 440000) \<mapsto> 0],
       ticks := [(- 3600000, 0), (440000, 1)],
       token_x_balance := 32 / 5,
       tick_objs := (tick_objs pool3)
         [2 := \<lparr>idx = - 1900000, liquidity_net = 0, liquidity_gross = 0,
                fee_growth_outside_x = 1 / 9, fee_growth_outside_y = 0\<rparr>,
          3 := \<lparr>idx = 210000, liquidity_net = 0, liquidity_gross = 0,
                fee_growth_outside_x = 0, fee_growth_outside_y = 0\<rparr>]\<rparr>"

definition pool5 :: Pair where
  "pool5 =
     pool4\<lparr>curr_sqrt_price := 18 / 19, curr_tick_idx := - 1024931,
       fee_growth_global_x := 1 / 18, token_x_balance := 42 / 5\<rparr>"

text \<open>
  A second pool, whose prices are exact binary fractions:
  \<^verbatim>\<open>Pair('x', 'y', 0.5, 0.5, 100)\<close> followed by
  \<^verbatim>\<open>add_liquidity('carol', 4, -7500000, 0)\<close> (lemmas \<open>init_half_pool0\<close>,
  \<open>add_carol\<close>). The ticks -7500000 and 0 have the square-root prices 0.5 and 1.
\<close>

definition half_pool0 :: Pair where
  "half_pool0 =
     \<lparr>token_x = ''x'', token_y = ''y'', liquidity = 0, init_sqrt_price = 1 / 2,
      fee_tier = 1 / 2, tick_spacing = 100, curr_sqrt_price = 1 / 2,
      curr_tick_idx = - 7500000,
      positions = Map.empty, ticks = [], all_ticks = Map.empty,
      fee_growth_global_x = 0, fee_growth_global_y = 0,
      token_x_balance = 0, token_y_balance = 0, tick_objs = [], position_objs = []\<rparr>"

definition half_pool1 :: Pair where
  "half_pool1 =
     half_pool0\<lparr>liquidity := 4,
       positions := [(''carol'', - 7500000, 0) \<mapsto> 0],
       ticks := [(- 7500000, 0), (0, 1)],
       all_ticks := [- 7500000 \<mapsto> 0, 0 \<mapsto> 1],
       token_x_balance := 4,
       tick_objs :=
         [\<lparr>idx = - 7500000, liquidity_net = 4, liquidity_gross = 4,
           fee_growth_outside_x = 0, fee_growth_outside_y = 0\<rparr>,
          \<lparr>idx = 0, liquidity_net = - 4, liquidity_gross = 4,
           fee_growth_outside_x = 0, fee_growth_outside_y = 0\<rparr>],
       position_objs :=
         [\<lparr>owner = ''carol'', position_liquidity = 4, lower_tick = 0, upper_tick = 1,
           fee_growth_inside_x = 0, fee_growth_inside_y = 0, fees_x = 0, fees_y = 0\<rparr>]\<rparr>"

text \<open>
  \<open>half_pool2\<close> is \<open>half_pool1\<close> after \<^verbatim>\<open>swap('y', 3, 100)\<close> (lemma
  \<open>swap_y_boundary\<close>).
\<close>

definition half_pool2 :: Pair where
  "half_pool2 =
     half_pool1\<lparr>curr_sqrt_price := 1, curr_tick_idx := 0, fee_growth_global_y := 1 / 4,
       token_y_balance := 3, token_x_balance := 0\<rparr>"

text \<open>
  \<open>pool2_dave\<close> is \<open>pool2\<close> after \<^verbatim>\<open>add_liquidity('dave', -5, 2001, 0)\<close> and
  \<open>pool2_over\<close> is \<open>pool2\<close> after \<^verbatim>\<open>remove_liquidity(bob, 100)\<close> (lemmas \<open>add_dave\<close>,
  \<open>remove_bob_over\<close>).
\<close>

definition pool2_dave :: Pair where
  "pool2_dave =
     pool2\<lparr>positions := (positions pool2)((''dave'', 2001, 0) \<mapsto> 2),
       ticks := [(- 3600000, 0), (- 1900000, 2), (0, 5), (2001, 4), (210000, 3), (440000, 1)],
       all_ticks := (all_ticks pool2)(2001 \<mapsto> 4, 0 \<mapsto> 5),
       token_y_balance := 901 / 200,
       tick_objs := tick_objs pool2 @
         [\<lparr>idx = 2001, liquidity_net = - 5, liquidity_gross = - 5,
           fee_growth_outside_x = 0, fee_growth_outside_y = 0\<rparr>,
          \<lparr>idx = 0, liquidity_net = 5, liquidity_gross = - 5,
           fee_growth_outside_x = 0, fee_growth_outside_y = 0\<rparr>],
       position_objs := position_objs pool2 @
         [\<lparr>owner = ''dave'', position_liquidity = - 5, lower_tick = 4, upper_tick = 5,
           fee_growth_inside_x = 0, fee_growth_inside_y = 0, fees_x = 0, fees_y = 0\<rparr>]\<rparr>"

definition pool2_over :: Pair where
  "pool2_over =
     pool2\<lparr>liquidity := - 64,
       token_x_balance := - (113 / 22), token_y_balance := - (11 / 2),
       tick_objs := (tick_objs pool2)
         [2 := \<lparr>idx = - 1900000, liquidity_net = - 73, liquidity_gross = - 73,
                fee_growth_outside_x = 0, fee_growth_outside_y = 0\<rparr>,
          3 := \<lparr>idx = 210000, liquidity_net = 73, liquidity_gross = - 73,
                fee_growth_outside_x = 0, fee_growth_outside_y = 0\<rparr>],
       position_objs := (position_objs pool2)
         [1 := \<lparr>owner = ''bob'', position_liquidity = - 73, lower_tick = 2, upper_tick = 3,
                fee_growth_inside_x = 0, fee_growth_inside_y = 0, fees_x = 0, fees_y = 0\<rparr>]\<rparr>"

section \<open>Formulas of the specification\<close>

text \<open>
  The token deltas as the specification words them (section 4.6): the current square-root
  price is clamped into the range before the two formulas are applied.
\<close>

definition spec_liquidity_to_tokens :: "real \<Rightarrow> real \<Rightarrow> real \<Rightarrow> real \<Rightarrow> real \<times> real" where
  "spec_liquidity_to_tokens liq p_a p_b p =
     (let p_c = max p_a (min p p_b)
      in (max (liq * (p_b - p_c) / (p_b * p_c)) 0, max (liq * (p_c - p_a)) 0))"

text \<open>
  The value of the local \<^verbatim>\<open>updated_sqrt_price\<close> (the tentative new price) in an iteration
  of \<^verbatim>\<open>swap_y_for_x\<close>.
\<close>

definition updated_sqrt_price_y :: "Pair \<Rightarrow> swap_vars \<Rightarrow> real" where
  "updated_sqrt_price_y st v =
     curr_sqrt_price st + fst (deduct_fees st (amount_remaining v)) / liquidity st"

section \<open>Reachable pools\<close>

text \<open>
  The pools a caller can reach: a pool that \<^verbatim>\<open>Pair.__init__\<close> has built, and from a
  reachable pool whatever \<^verbatim>\<open>add_liquidity\<close>, \<^verbatim>\<open>remove_liquidity\<close>, \<^verbatim>\<open>collect_fees\<close>,
  \<^verbatim>\<open>withdraw_fees\<close> and \<^verbatim>\<open>swap\<close> leave behind, whether the call returns or raises
  (\<open>res\<close> is any outcome). A position argument is a \<^verbatim>\<open>Position\<close> object that
  \<^verbatim>\<open>add_liquidity\<close> has returned, that is, a reference into the store.
\<close>

inductive reachable :: "Pair \<Rightarrow> bool" where
  reachable_init:
    "init_pair tx ty price fee spacing = Inr st \<Longrightarrow> reachable st"
| reachable_add:
    "reachable st \<Longrightarrow> add_liquidity own liq lo up st = (res, st') \<Longrightarrow> reachable st'"
| reachable_remove:
    "reachable st \<Longrightarrow> position < length (position_objs st) \<Longrightarrow>
     remove_liquidity position liq st = (res, st') \<Longrightarrow> reachable st'"
| reachable_collect:
    "reachable st \<Longrightarrow> position < length (position_objs st) \<Longrightarrow>
     collect_fees position st = (res, st') \<Longrightarrow> reachable st'"
| reachable_withdraw:
    "reachable st \<Longrightarrow> position < length (position_objs st) \<Longrightarrow>
     withdraw_fees position st = (res, st') \<Longrightarrow> reachable st'"
| reachable_swap:
    "reachable st \<Longrightarrow> swap tok amount sqrt_price_limit simulate st = Some (res, st') \<Longrightarrow> reachable st'"

text \<open>
  The indices stored in the \<^verbatim>\<open>Tick\<close> objects and the boundary references stored in the
  \<^verbatim>\<open>Position\<close> objects. \<open>pool_inv\<close>: every entry of \<^verbatim>\<open>ticks\<close> refers to an object
  of the store that carries the entry's key, and the key is in \<^verbatim>\<open>all_ticks\<close>; the
  boundaries of every position object are objects of the store whose indices are keys of
  \<^verbatim>\<open>all_ticks\<close>. \<open>shrinks st st'\<close>: from \<open>st\<close> to \<open>st'\<close> entries of \<^verbatim>\<open>ticks\<close> were at most
  dropped, and \<^verbatim>\<open>all_ticks\<close>, the tick indices and the position boundaries are the same.
\<close>

definition tick_ids :: "Pair \<Rightarrow> int list" where
  "tick_ids st = map idx (tick_objs st)"

definition position_bounds :: "Pair \<Rightarrow> (nat \<times> nat) list" where
  "position_bounds st = map (\<lambda>p. (lower_tick p, upper_tick p)) (position_objs st)"

definition pool_inv :: "Pair \<Rightarrow> bool" where
  "pool_inv st \<longleftrightarrow>
     (\<forall>(k, r) \<in> set (ticks st).
        r < length (tick_ids st) \<and> tick_ids st ! r = k \<and> k \<in> dom (all_ticks st)) \<and>
     (\<forall>(l, u) \<in> set (position_bounds st).
        l < length (tick_ids st) \<and> u < length (tick_ids st) \<and>
        tick_ids st ! l \<in> dom (all_ticks st) \<and> tick_ids st ! u \<in> dom (all_ticks st))"

definition shrinks :: "Pair \<Rightarrow> Pair \<Rightarrow> bool" where
  "shrinks st st' \<longleftrightarrow>
     set (ticks st') \<subseteq> set (ticks st) \<and> all_ticks st' = all_ticks st \<and>
     tick_ids st' = tick_ids st \<and> position_bounds st' = position_bounds st"

text \<open>
  What a swap never writes: the \<^verbatim>\<open>Position\<close> objects, and the index and the two
  liquidity fields of the \<^verbatim>\<open>Tick\<close> objects.
\<close>

definition tick_core :: "Tick \<Rightarrow> int \<times> real \<times> real" where
  "tick_core T = (idx T, liquidity_net T, liquidity_gross T)"

definition swap_frame :: "Pair \<Rightarrow> Pair \<Rightarrow> bool" where
  "swap_frame st st' \<longleftrightarrow>
     position_objs st' = position_objs st \<and>
     map tick_core (tick_objs st') = map tick_core (tick_objs st)"

section \<open>Properties of the price/tick codec\<close>

lemma lvl_eq: "curr_increment_lvl_of t = \<bar>t\<bar> div 9000000"
proof -
  have "\<bar>of_int t / of_int std_increment_distance\<bar> = (of_int \<bar>t\<bar> / of_int 9000000 :: real)"
    by (simp add: std_increment_distance_def)
  moreover have "0 \<le> (of_int \<bar>t\<bar> / of_int 9000000 :: real)" by simp
  ultimately show ?thesis
    unfolding curr_increment_lvl_of_def py_int_def
    by (simp only: if_True floor_divide_of_int_eq)
qed

lemma py_round_of_int: "py_round (of_int n) = n"
  by (simp add: py_round_def)

lemma find_level_up_found:
  "a \<le> j \<Longrightarrow> j < 49 \<Longrightarrow> 10 ^ j < price \<Longrightarrow> price \<le> 10 ^ Suc j \<Longrightarrow>
   find_level_up price [a ..< 50] = Inr j"
proof (induction "j - a" arbitrary: a)
  case 0
  then have "a = j" by simp
  with 0 show ?case by (simp add: upt_conv_Cons)
next
  case (Suc n)
  then have lt: "a < j" by simp
  then have "(10::real) ^ Suc a \<le> 10 ^ j" by (intro power_increasing) auto
  with Suc.prems have np: "\<not> price \<le> 10 ^ Suc a" by linarith
  have "(10::real) ^ a \<le> 10 ^ j" using lt by (intro power_increasing) auto
  with Suc.prems have p: "10 ^ a < price" by linarith
  have "find_level_up price [Suc a ..< 50] = Inr j"
    using Suc by (intro Suc.hyps) auto
  with lt Suc.prems p np show ?case by (simp add: upt_conv_Cons)
qed

lemma find_level_down_found:
  "a \<le> j \<Longrightarrow> j < 49 \<Longrightarrow> price < 10 powi (- int j) \<Longrightarrow> 10 powi (- int (Suc j)) \<le> price \<Longrightarrow>
   find_level_down price [a ..< 50] = Inr j"
proof (induction "j - a" arbitrary: a)
  case 0
  then have "a = j" by simp
  with 0 show ?case by (simp add: upt_conv_Cons)
next
  case (Suc n)
  then have lt: "a < j" by simp
  then have "(10::real) powi (- int j) \<le> 10 powi (- int (Suc a))" by (intro power_int_increasing) auto
  with Suc.prems have np: "\<not> 10 powi (- int (Suc a)) \<le> price" by linarith
  have "(10::real) powi (- int j) \<le> 10 powi (- int a)" using lt by (intro power_int_increasing) auto
  with Suc.prems have p: "price < 10 powi (- int a)" by linarith
  have "find_level_down price [Suc a ..< 50] = Inr j"
    using Suc by (intro Suc.hyps) auto
  with lt Suc.prems p np show ?case by (simp add: upt_conv_Cons)
qed

lemma tick_price_pos_form:
  assumes "0 < t"
  shows "tick_price t = 10 ^ nat (t div 9000000) * (1 + of_int (t mod 9000000) / 10 ^ 6)"
proof -
  define k where "k = t div 9000000"
  have k0: "0 \<le> k" using assms by (simp add: k_def pos_imp_zdiv_nonneg_iff)
  have lvl: "curr_increment_lvl_of t = k" using assms by (simp add: lvl_eq k_def)
  have r: "t - k * 9000000 = t mod 9000000" by (simp add: k_def minus_div_mult_eq_mod)
  have p1: "(10::real) powi k = 10 ^ nat k" using k0 by (simp add: power_int_def)
  have p2: "(10::real) powi (- 6 + k) = 10 ^ nat k / 10 ^ 6"
  proof -
    have "(10::real) powi (k - 6) = 10 powi k / 10 powi 6"
      by (rule power_int_diff) simp
    then show ?thesis by (simp add: p1)
  qed
  have "tick_price t = 10 powi k + of_int (t - k * 9000000) * 10 powi (- 6 + k)"
    using assms k0
    by (simp add: tick_price_def curr_additive_increment_of_def lvl Let_def py_pow10_def
        std_increment_distance_def exp_at_price_one_def)
  also have "\<dots> = 10 ^ nat k + of_int (t mod 9000000) * (10 ^ nat k / 10 ^ 6)"
    by (simp only: r p1 p2)
  finally show ?thesis by (simp add: k_def algebra_simps)
qed

lemma tick_price_neg_form:
  assumes "t \<le> 0" and "- 2853000000 < t"
  shows "tick_price t = (1 - of_int ((- t) mod 9000000) / 10 ^ 7) / 10 ^ nat ((- t) div 9000000)"
proof -
  define k where "k = (- t) div 9000000"
  have k0: "0 \<le> k" using assms by (simp add: k_def pos_imp_zdiv_nonneg_iff)
  have k317: "k < 317" using assms unfolding k_def by arith
  have lvl: "curr_increment_lvl_of t = k" using assms by (simp add: lvl_eq k_def)
  have r: "- t - k * 9000000 = (- t) mod 9000000" by (simp add: k_def minus_div_mult_eq_mod)
  have p1: "(10::real) powi (- k) = 1 / 10 ^ nat k"
    using k0 by (simp add: power_int_def field_simps)
  have p2: "(10::real) powi (- 6 - (k + 1)) = 1 / (10 ^ nat k * 10 ^ 7)"
  proof -
    have "- 6 - (k + 1) = - (k + 7)" by simp
    then have "(10::real) powi (- 6 - (k + 1)) = inverse (10 powi (k + 7))"
      by (simp only: power_int_minus)
    also have "(10::real) powi (k + 7) = 10 ^ nat k * 10 ^ 7"
      using k0 by (simp add: power_int_def nat_add_distrib power_add)
    finally show ?thesis by (simp add: field_simps)
  qed
  have "tick_price t = 10 powi (- k) - of_int (- t - k * 9000000) * 10 powi (- 6 - (k + 1))"
    using assms k0 k317
    by (simp add: tick_price_def curr_additive_increment_of_def lvl Let_def py_pow10_def
        std_increment_distance_def exp_at_price_one_def)
  also have "\<dots> = 1 / 10 ^ nat k - of_int ((- t) mod 9000000) * (1 / (10 ^ nat k * 10 ^ 7))"
    by (simp only: r p1 p2)
  finally show ?thesis by (simp add: k_def field_simps)
qed

lemma tick_price_pos:
  assumes "- 2853000000 < t"
  shows "0 < tick_price t"
proof (cases "0 < t")
  case True
  have "0 \<le> t mod 9000000" by simp
  then have "0 < 1 + real_of_int (t mod 9000000) / 10 ^ 6" by (simp add: add_pos_nonneg)
  then show ?thesis using True by (simp add: tick_price_pos_form)
next
  case False
  then have t: "t \<le> 0" by simp
  have "(- t) mod 9000000 < 9000000" by simp
  then have "real_of_int ((- t) mod 9000000) < 9000000" by linarith
  then have "0 < 1 - real_of_int ((- t) mod 9000000) / 10 ^ 7" by simp
  then show ?thesis by (simp add: tick_price_neg_form [OF t assms])
qed

lemma sqrt_tick_price_sq: "- 2853000000 < t \<Longrightarrow> (sqrt (tick_price t))\<^sup>2 = tick_price t"
  using tick_price_pos [of t] by simp

lemma float_range: "(10::real) ^ 51 \<le> 2 ^ 1024 - 2 ^ 970"
  by simp

lemma tick_price_upper:
  assumes "0 < t" and "t \<le> 441000000"
  shows "0 \<le> tick_price t + curr_additive_increment_of t"
    and "tick_price t + curr_additive_increment_of t \<le> 10 ^ 50 + 10 ^ 49"
proof -
  define k where "k = nat (t div 9000000)"
  define r where "r = t mod 9000000"
  have k49: "k \<le> 49" using assms by (simp add: k_def)
  have kk: "t div 9000000 = int k" using assms by (simp add: k_def pos_imp_zdiv_nonneg_iff)
  have rr: "0 \<le> real_of_int r" "real_of_int r \<le> 9000000" by (simp_all add: r_def less_imp_le)
  have price: "tick_price t = 10 ^ k * (1 + of_int r / 10 ^ 6)"
    using assms by (simp add: tick_price_pos_form k_def r_def)
  have "curr_additive_increment_of t = 10 powi (int k - 6)"
    using assms by (simp add: curr_additive_increment_of_def lvl_eq kk Let_def py_pow10_def
        exp_at_price_one_def)
  also have "\<dots> = 10 ^ k / 10 ^ 6"
  proof -
    have "(10::real) powi (int k - 6) = 10 powi (int k) / 10 powi 6"
      by (rule power_int_diff) simp
    then show ?thesis by simp
  qed
  finally have incr: "curr_additive_increment_of t = 10 ^ k / 10 ^ 6" .
  have p49: "(10::real) ^ k \<le> 10 ^ 49" using k49 by (intro power_increasing) auto
  have p0: "(0::real) < 10 ^ k" by simp
  have "1 + real_of_int r / 10 ^ 6 \<le> 10" using rr by simp
  then have "10 ^ k * (1 + real_of_int r / 10 ^ 6) \<le> 10 ^ 49 * 10"
    using p49 rr by (intro mult_mono) auto
  then have a: "tick_price t \<le> 10 ^ 50" by (simp add: price)
  have "(10::real) ^ k / 10 ^ 6 \<le> 10 ^ k" using p0 by (simp add: field_simps)
  with p49 have b: "curr_additive_increment_of t \<le> 10 ^ 49" unfolding incr by linarith
  from a b show "tick_price t + curr_additive_increment_of t \<le> 10 ^ 50 + 10 ^ 49" by linarith
  have "0 \<le> 10 ^ k * (1 + real_of_int r / 10 ^ 6)" using rr by (intro mult_nonneg_nonneg) auto
  moreover have "0 \<le> (10::real) ^ k / 10 ^ 6" by simp
  ultimately show "0 \<le> tick_price t + curr_additive_increment_of t"
    unfolding price incr by linarith
qed

lemma tick_to_sqrt_price_bounded:
  assumes "\<bar>t\<bar> \<le> 441000000"
  shows "tick_to_sqrt_price t =
         Inr (sqrt (tick_price t), sqrt (tick_price t + curr_additive_increment_of t))"
proof -
  have "\<bar>real_of_int t\<bar> \<le> 441000000" using assms by linarith
  then have "\<bar>real_of_int t / 9000000\<bar> \<le> 49" by (simp add: field_simps)
  moreover have "(49::real) < 2 ^ 1024 - 2 ^ 970" by simp
  ultimately have d: "\<not> float_overflow (of_int t / of_int std_increment_distance)"
    unfolding float_overflow_def std_increment_distance_def by simp
  have s: "\<not> float_overflow (tick_price t + curr_additive_increment_of t)" if "0 < t"
  proof -
    from that assms have u: "t \<le> 441000000" by simp
    have "(10::real) ^ 50 + 10 ^ 49 < 10 ^ 51" by simp
    with tick_price_upper [OF that u] float_range
    show ?thesis unfolding float_overflow_def by linarith
  qed
  show ?thesis using d s by (auto simp: tick_to_sqrt_price_def Let_def)
qed

text \<open>
  The two ends of the range of floats: the price of the tick 2781000000 is the integer
  \<open>10 ^ 309\<close>, which has no float, and the price of the tick -2916000000 is \<^verbatim>\<open>0.0\<close>.
\<close>

lemma tick_to_sqrt_price_overflow: "tick_to_sqrt_price 2781000000 = Inl OverflowError"
proof -
  have p: "tick_price 2781000000 = 10 ^ 309" by (simp add: tick_price_pos_form)
  have i: "curr_additive_increment_of 2781000000 = 10 ^ 303"
    by (simp add: curr_additive_increment_of_def lvl_eq Let_def py_pow10_def
        exp_at_price_one_def)
  have "(2::real) ^ 1024 - 2 ^ 970 \<le> 10 ^ 309 + 10 ^ 303" by simp
  then have "float_overflow (10 ^ 309 + 10 ^ 303)"
    unfolding float_overflow_def by linarith
  then show ?thesis
    by (simp add: tick_to_sqrt_price_def p i lvl_eq exp_at_price_one_def Let_def)
qed

lemma tick_to_sqrt_price_underflow: "tick_to_sqrt_price (- 2916000000) = Inr (0, 0)"
proof -
  have p: "tick_price (- 2916000000) = 0"
    by (simp add: tick_price_def curr_additive_increment_of_def lvl_eq Let_def py_pow10_def
        exp_at_price_one_def std_increment_distance_def)
  have i: "curr_additive_increment_of (- 2916000000) = 0"
    by (simp add: curr_additive_increment_of_def lvl_eq Let_def py_pow10_def
        exp_at_price_one_def)
  have "\<not> float_overflow (- 2916000000 / 9000000)"
    by (simp add: float_overflow_def)
  then show ?thesis
    by (simp add: tick_to_sqrt_price_def p i std_increment_distance_def Let_def)
qed

lemma tick_sqrt_price_bounded:
  "\<bar>t\<bar> \<le> 441000000 \<Longrightarrow> tick_sqrt_price t = Inr (sqrt (tick_price t))"
  by (simp add: tick_sqrt_price_def tick_to_sqrt_price_bounded)

lemma tick_sqrt_price_value:
  assumes "\<bar>t\<bar> \<le> 441000000" and "tick_price t = s\<^sup>2" and "0 \<le> s"
  shows "tick_sqrt_price t = Inr s"
  using assms by (simp add: tick_sqrt_price_bounded)

lemma sqrt_price_to_tick_up:
  assumes "1 < s\<^sup>2" and "find_level_up (s\<^sup>2) [0 ..< 50] = Inr j"
    and "(s\<^sup>2 - 10 ^ j) / (10 powi (int j - 6)) = of_int a"
  shows "sqrt_price_to_tick s = Inr (int j * 9000000 + a)"
proof -
  from assms(1) have ne: "s\<^sup>2 \<noteq> 1" by simp
  show ?thesis
    unfolding sqrt_price_to_tick_def Let_def
    by (simp only: ne assms if_True if_False sum.case py_round_of_int std_increment_distance_def)
qed

lemma sqrt_price_to_tick_down:
  assumes "s\<^sup>2 < 1" and "find_level_down (s\<^sup>2) [0 ..< 50] = Inr j"
    and "(10 powi (- int j) - s\<^sup>2) / (10 powi (- 1 * (int j + 7))) = of_int a"
  shows "sqrt_price_to_tick s = Inr (- int j * 9000000 - a)"
proof -
  from assms(1) have ne: "s\<^sup>2 \<noteq> 1" "\<not> 1 < s\<^sup>2" by simp_all
  show ?thesis
    unfolding sqrt_price_to_tick_def Let_def
    by (simp only: ne assms if_True if_False sum.case py_round_of_int std_increment_distance_def)
qed

lemma powi_minus6: "(10::real) powi (int j - 6) = 10 ^ j / 10 ^ 6"
proof -
  have "(10::real) powi (int j - 6) = 10 powi (int j) / 10 powi 6"
    by (rule power_int_diff) simp
  then show ?thesis by simp
qed

lemma powi_neg: "(10::real) powi (- int j) = 1 / 10 ^ j"
  by (simp add: power_int_minus field_simps)

lemma powi_neg7: "(10::real) powi (- 1 * (int j + 7)) = 1 / (10 ^ j * 10 ^ 7)"
proof -
  have "- 1 * (int j + 7) = - (int j + 7)" by simp
  then have "(10::real) powi (- 1 * (int j + 7)) = inverse (10 powi (int j + 7))"
    by (simp only: power_int_minus)
  also have "(10::real) powi (int j + 7) = 10 ^ j * 10 ^ 7"
    by (simp add: power_int_add)
  finally show ?thesis by (simp add: field_simps)
qed

lemma roundtrip_pos:
  assumes t: "0 < t" "t \<le> 441000000"
  shows "sqrt_price_to_tick (sqrt (tick_price t)) = Inr t"
proof -
  define k where "k = nat (t div 9000000)"
  define r where "r = t mod 9000000"
  have sq: "(sqrt (tick_price t))\<^sup>2 = tick_price t"
    using t by (intro sqrt_tick_price_sq) simp
  have kr: "t = int k * 9000000 + r"
    using t by (simp add: k_def r_def pos_imp_zdiv_nonneg_iff)
  have r0: "0 \<le> r" and r9: "r < 9000000" by (simp_all add: r_def)
  have price: "tick_price t = 10 ^ k * (1 + of_int r / 10 ^ 6)"
    using t by (simp add: tick_price_pos_form k_def r_def)
  have k49: "k \<le> 49" using t by (simp add: k_def)
  show ?thesis
  proof (cases "r = 0")
    case True
    with kr t have kpos: "0 < k" by (cases k) auto
    then obtain j where j: "k = Suc j" by (cases k) auto
    have p: "tick_price t = 10 ^ Suc j" using price True j by simp
    have j49: "j < 49" using k49 j by simp
    have gt1: "1 < tick_price t"
      unfolding p by (rule one_less_power) auto
    have lt: "(10::real) ^ j < 10 ^ Suc j" by simp
    have lvl: "find_level_up (tick_price t) [0 ..< 50] = Inr j"
      by (rule find_level_up_found) (use j49 lt in \<open>simp_all add: p\<close>)
    have q: "(tick_price t - 10 ^ j) / (10 powi (int j - 6)) = of_int 9000000"
      unfolding p powi_minus6 by (simp add: field_simps)
    have "sqrt_price_to_tick (sqrt (tick_price t)) = Inr (int j * 9000000 + 9000000)"
      by (rule sqrt_price_to_tick_up) (simp_all only: sq gt1 lvl q)
    then show ?thesis using kr True j by simp
  next
    case False
    with r0 have rpos: "0 < r" by simp
    have k48: "k < 49"
    proof (rule ccontr)
      assume "\<not> k < 49"
      with k49 have "k = 49" by simp
      with kr rpos t show False by simp
    qed
    have rr: "0 < real_of_int r" "real_of_int r < 9000000" using rpos r9 by simp_all
    have lo: "10 ^ k < tick_price t"
      unfolding price using rr by (simp add: field_simps)
    have hi: "tick_price t \<le> 10 ^ Suc k"
      unfolding price using rr by (simp add: field_simps)
    have "(1::real) \<le> 10 ^ k" by simp
    with lo have gt1: "1 < tick_price t" by linarith
    have lvl: "find_level_up (tick_price t) [0 ..< 50] = Inr k"
      by (rule find_level_up_found) (use k48 lo hi in simp_all)
    have q: "(tick_price t - 10 ^ k) / (10 powi (int k - 6)) = of_int r"
      unfolding price powi_minus6 by (simp add: field_simps)
    have "sqrt_price_to_tick (sqrt (tick_price t)) = Inr (int k * 9000000 + r)"
      by (rule sqrt_price_to_tick_up) (simp_all only: sq gt1 lvl q)
    then show ?thesis using kr by simp
  qed
qed

lemma roundtrip_neg:
  assumes t: "t < 0" "- 441000000 \<le> t"
  shows "sqrt_price_to_tick (sqrt (tick_price t)) = Inr t"
proof -
  define k where "k = nat ((- t) div 9000000)"
  define r where "r = (- t) mod 9000000"
  have sq: "(sqrt (tick_price t))\<^sup>2 = tick_price t"
    using t by (intro sqrt_tick_price_sq) simp
  have kr: "- t = int k * 9000000 + r"
    using t by (simp add: k_def r_def pos_imp_zdiv_nonneg_iff)
  have r0: "0 \<le> r" and r9: "r < 9000000" by (simp_all add: r_def)
  have price: "tick_price t = (1 - of_int r / 10 ^ 7) / 10 ^ k"
    using t by (simp add: tick_price_neg_form k_def r_def)
  have k49: "k \<le> 49" using t by (simp add: k_def)
  show ?thesis
  proof (cases "r = 0")
    case True
    with kr t have kpos: "0 < k" by (cases k) auto
    then obtain j where j: "k = Suc j" by (cases k) auto
    have p: "tick_price t = 1 / 10 ^ Suc j" using price True j by simp
    have j49: "j < 49" using k49 j by simp
    have "(1::real) < 10 ^ Suc j" by (rule one_less_power) auto
    then have lt1: "tick_price t < 1" unfolding p by simp
    have hi: "tick_price t < 10 powi (- int j)"
      unfolding p powi_neg by (simp add: field_simps)
    have lo: "10 powi (- int (Suc j)) \<le> tick_price t"
      unfolding p powi_neg by simp
    have lvl: "find_level_down (tick_price t) [0 ..< 50] = Inr j"
      by (rule find_level_down_found) (use j49 lo hi in simp_all)
    have q: "(10 powi (- int j) - tick_price t) / (10 powi (- 1 * (int j + 7))) = of_int 9000000"
      unfolding p powi_neg powi_neg7 by (simp add: field_simps)
    have "sqrt_price_to_tick (sqrt (tick_price t)) = Inr (- int j * 9000000 - 9000000)"
      by (rule sqrt_price_to_tick_down) (simp_all only: sq lt1 lvl q)
    then show ?thesis using kr True j by simp
  next
    case False
    with r0 have rpos: "0 < r" by simp
    have k48: "k < 49"
    proof (rule ccontr)
      assume "\<not> k < 49"
      with k49 have "k = 49" by simp
      with kr rpos t show False by simp
    qed
    have rr: "0 < real_of_int r" "real_of_int r < 9000000" using rpos r9 by simp_all
    have hi: "tick_price t < 10 powi (- int k)"
      unfolding price powi_neg using rr by (simp add: field_simps)
    have lo: "10 powi (- int (Suc k)) \<le> tick_price t"
      unfolding price powi_neg using rr by (simp add: field_simps)
    have "1 / (10::real) ^ k \<le> 1" by simp
    with hi have lt1: "tick_price t < 1" unfolding powi_neg by linarith
    have lvl: "find_level_down (tick_price t) [0 ..< 50] = Inr k"
      by (rule find_level_down_found) (use k48 lo hi in simp_all)
    have q: "(10 powi (- int k) - tick_price t) / (10 powi (- 1 * (int k + 7))) = of_int r"
      unfolding price powi_neg powi_neg7 by (simp add: field_simps)
    have "sqrt_price_to_tick (sqrt (tick_price t)) = Inr (- int k * 9000000 - r)"
      by (rule sqrt_price_to_tick_down) (simp_all only: sq lt1 lvl q)
    then show ?thesis using kr by simp
  qed
qed

lemma roundtrip_zero: "sqrt_price_to_tick (sqrt (tick_price 0)) = Inr 0"
proof -
  have "tick_price 0 = 1" by (simp add: tick_price_neg_form)
  then show ?thesis
    unfolding sqrt_price_to_tick_def by simp
qed

lemma find_level_up_overflow:
  "a \<le> 49 \<Longrightarrow> 10 ^ 49 < price \<Longrightarrow> find_level_up price [a ..< 50] = Inl IndexError"
proof (induction "49 - a" arbitrary: a)
  case 0
  then have "a = 49" by simp
  with 0 show ?case by (simp add: upt_conv_Cons)
next
  case (Suc n)
  then have lt: "a < 49" by simp
  then have "(10::real) ^ Suc a \<le> 10 ^ 49" by (intro power_increasing) auto
  with Suc.prems have np: "\<not> price \<le> 10 ^ Suc a" by linarith
  have "(10::real) ^ a \<le> 10 ^ 49" using lt by (intro power_increasing) auto
  with Suc.prems have p: "10 ^ a < price" by linarith
  have "find_level_up price [Suc a ..< 50] = Inl IndexError"
    using Suc by (intro Suc.hyps) auto
  with lt p np show ?case by (simp add: upt_conv_Cons)
qed

text \<open>
  Claim C7, as the code has it. On every tick index \<open>t\<close> with
  \<open>\<bar>t\<bar> \<le> 49 * std_increment_distance = 441000000\<close>, whether or not \<open>t\<close> is a
  multiple of the tick spacing, \<open>tick_to_sqrt_price\<close> returns a pair, and in exact
  arithmetic \<open>sqrt_price_to_tick\<close> maps its first component back to \<open>t\<close>.
\<close>

theorem sqrt_price_to_tick_roundtrip:
  "\<bar>t\<bar> \<le> 49 * std_increment_distance \<Longrightarrow>
   \<exists>p q. tick_to_sqrt_price t = Inr (p, q) \<and> sqrt_price_to_tick p = Inr t"
proof -
  assume "\<bar>t\<bar> \<le> 49 * std_increment_distance"
  then have a: "\<bar>t\<bar> \<le> 441000000" by (simp add: std_increment_distance_def)
  then have b: "t \<le> 441000000" "- 441000000 \<le> t" by simp_all
  consider "0 < t" | "t < 0" | "t = 0" by linarith
  then have "sqrt_price_to_tick (sqrt (tick_price t)) = Inr t"
  proof cases
    case 1
    then show ?thesis using b(1) by (rule roundtrip_pos)
  next
    case 2
    then show ?thesis using b(2) by (rule roundtrip_neg)
  next
    case 3
    then show ?thesis by (simp only: roundtrip_zero)
  qed
  with tick_to_sqrt_price_bounded [OF a] show ?thesis by blast
qed

theorem sqrt_price_to_tick_roundtrip_witness:
  "\<bar>- 3600000\<bar> \<le> 49 * std_increment_distance \<and>
   (\<exists>p q. tick_to_sqrt_price (- 3600000) = Inr (p, q) \<and>
          sqrt_price_to_tick p = Inr (- 3600000))"
  using sqrt_price_to_tick_roundtrip [of "- 3600000"]
  by (simp add: std_increment_distance_def)

text \<open>
  Claim C7 as stated fails: the tick index 450000000 is a multiple of every tick spacing
  that divides it (1, 100, 10000, ...), its price is \<open>10 ^ 50\<close>, and the level search of
  \<open>sqrt_price_to_tick\<close> reads past the 50 price levels it builds.
\<close>

theorem sqrt_price_to_tick_roundtrip_counterexample:
  "tick_sqrt_price 450000000 = Inr (10 ^ 25) \<and>
   sqrt_price_to_tick (10 ^ 25) = Inl IndexError"
proof -
  have p: "tick_price 450000000 = 10 ^ 50" by (simp add: tick_price_pos_form)
  have i: "curr_additive_increment_of 450000000 = 10 ^ 44"
    by (simp add: curr_additive_increment_of_def lvl_eq Let_def py_pow10_def
        exp_at_price_one_def)
  have s: "sqrt (10 ^ 50) = (10::real) ^ 25"
    by (rule real_sqrt_unique) simp_all
  have "tick_to_sqrt_price 450000000 = Inr (10 ^ 25, sqrt (10 ^ 50 + 10 ^ 44))"
    by (simp add: tick_to_sqrt_price_def p i s float_overflow_def
        std_increment_distance_def Let_def)
  then have a: "tick_sqrt_price 450000000 = Inr (10 ^ 25)"
    by (simp add: tick_sqrt_price_def)
  have e: "((10::real) ^ 25)\<^sup>2 = 10 ^ 50" by simp
  have "find_level_up (10 ^ 50) [0 ..< 50] = Inl IndexError"
    by (rule find_level_up_overflow) simp_all
  then have "sqrt_price_to_tick (10 ^ 25) = Inl IndexError"
    unfolding sqrt_price_to_tick_def e by simp
  with a show ?thesis by simp
qed

section \<open>The pool built through the public methods\<close>

lemma sqrt_tick_values:
  "tick_sqrt_price (- 3600000) = Inr (4 / 5)"
  "tick_sqrt_price (- 1900000) = Inr (9 / 10)"
  "tick_sqrt_price 210000 = Inr (11 / 10)"
  "tick_sqrt_price 440000 = Inr (6 / 5)"
proof -
  show "tick_sqrt_price (- 3600000) = Inr (4 / 5)"
    by (rule tick_sqrt_price_value) (simp_all add: tick_price_neg_form power2_eq_square)
  show "tick_sqrt_price (- 1900000) = Inr (9 / 10)"
    by (rule tick_sqrt_price_value) (simp_all add: tick_price_neg_form power2_eq_square)
  show "tick_sqrt_price 210000 = Inr (11 / 10)"
    by (rule tick_sqrt_price_value) (simp_all add: tick_price_pos_form power2_eq_square)
  show "tick_sqrt_price 440000 = Inr (6 / 5)"
    by (rule tick_sqrt_price_value) (simp_all add: tick_price_pos_form power2_eq_square)
qed

lemma init_pool0: "init_pair ''x'' ''y'' 1 (1 / 2) 10000 = Inr pool0"
  by (simp add: init_pair_def sqrt_price_to_tick_def pool0_def)

lemma add_alice: "add_liquidity ''alice'' 9 (- 3600000) 440000 pool0 = (Inr 0, pool1)"
  by (simp add: add_liquidity_def pool0_def pool1_def bind_result_def init_or_adjust_tick_def
      fee_growth_outside_def fee_within_range_def sort_tick_map_def move_balances_def
      liquidity_to_tokens_def sqrt_tick_values Let_def)

lemma add_bob: "add_liquidity ''bob'' 27 (- 1900000) 210000 pool1 = (Inr 1, pool2)"
  by (simp add: add_liquidity_def pool1_def pool2_def bind_result_def init_or_adjust_tick_def
      fee_growth_outside_def fee_within_range_def sort_tick_map_def move_balances_def
      liquidity_to_tokens_def sqrt_tick_values Let_def numeral_2_eq_2 numeral_3_eq_3)

section \<open>Properties of the tick index\<close>

text \<open>
  Claim C4, evaluated on the code. In the pool \<open>pool2\<close> the active ticks are -3600000,
  -1900000, 210000 and 440000. Asked for the next tick below the smallest key,
  \<open>find_next_tick\<close> returns the largest key (\<^verbatim>\<open>keys[position - 1]\<close> is \<^verbatim>\<open>keys[-1]\<close>);
  asked for the next tick above the largest key it raises IndexError
  (\<^verbatim>\<open>keys[position + 1]\<close>). The claim requires the answer "none" in both cases.
\<close>

theorem find_next_tick_at_extreme_keys:
  "find_next_tick pool2 (- 3600000) False = Inr (Some 440000) \<and>
   find_next_tick pool2 440000 True = Inl IndexError"
  by (simp add: find_next_tick_def pool2_def pool1_def py_getitem_def)

section \<open>Token deltas\<close>

text \<open>
  Claim C5, evaluated on the code. In \<open>pool2\<close> the square-root price is 1, below the range
  of the ticks 210000 and 440000 (square-root prices 1.1 and 1.2), so the range holds
  token x only and the clamped price of the claim is the lower edge 1.1: for the liquidity
  27 the claim gives \<open>\<Delta>x = 27 * (1.2 - 1.1) / (1.2 * 1.1) = 45/22\<close> at every price below
  the range. \<open>liquidity_to_tokens\<close> puts the price itself into the formula:
  \<open>\<Delta>x = 27 * (1.2 - 1) / (1.2 * 1) = 9/2\<close> at the current price 1, and
  \<open>\<Delta>x = 27 * (1.2 - 18/19) / (1.2 * 18/19) = 6\<close> at the price 18/19. Its \<^verbatim>\<open>max(., 0)\<close>
  floors the other delta, which is negative outside the range, so the code does treat a
  price outside the range, and leaves the delta of the token the range holds unclamped; the
  amount of token x that one and the same liquidity stands for changes with a price that
  never enters the range.
\<close>

theorem liquidity_to_tokens_below_range:
  "curr_sqrt_price pool2 = 1 \<and>
   tick_sqrt_price 210000 = Inr (11 / 10) \<and>
   tick_sqrt_price 440000 = Inr (6 / 5) \<and>
   liquidity_to_tokens pool2 27 210000 440000 None = Inr (9 / 2, 0) \<and>
   liquidity_to_tokens pool2 27 210000 440000 (Some (18 / 19)) = Inr (6, 0) \<and>
   spec_liquidity_to_tokens 27 (11 / 10) (6 / 5) 1 = (45 / 22, 0) \<and>
   spec_liquidity_to_tokens 27 (11 / 10) (6 / 5) (18 / 19) = (45 / 22, 0)"
  by (simp add: liquidity_to_tokens_def spec_liquidity_to_tokens_def sqrt_tick_values
      pool2_def pool1_def)

section \<open>Evaluating swaps on the pool\<close>

lemma py_int_vals: "py_int (79 / 20) = 3" "py_int (18 / 5) = 3"
  by (simp_all add: py_int_def)

lemma token_x_pool2: "token_x pool2 = ''x''"
  by (simp add: pool2_def pool1_def)

lemma swap_x_for_y_crossing: "swap_x_for_y (79 / 10) 0 pool2 = Some (Inr 3, pool2_crossed)"
  apply (simp add: swap_x_for_y_def find_next_tick_def pool2_def pool1_def py_getitem_def
      sqrt_tick_values)
  apply (subst swap_x_for_y_loop.simps)
  apply (simp add: swap_x_for_y_step_def deduct_fees_def add_fees_def bind_result_def
      cross_tick_def find_next_tick_def py_getitem_def sqrt_tick_values fee_growth_outside_def
      py_int_vals Let_def)
  apply (subst swap_x_for_y_loop.simps)
  apply (simp add: pool2_crossed_def pool2_def pool1_def)
  done

lemma swap_x_for_y_slippage:
  "swap_x_for_y (79 / 10) (19 / 20) pool2 = Some (Inl SlippageTooHighException, pool2_crossed)"
  apply (simp add: swap_x_for_y_def find_next_tick_def pool2_def pool1_def py_getitem_def
      sqrt_tick_values)
  apply (subst swap_x_for_y_loop.simps)
  apply (simp add: swap_x_for_y_step_def deduct_fees_def add_fees_def bind_result_def
      cross_tick_def find_next_tick_def py_getitem_def sqrt_tick_values fee_growth_outside_def
      py_int_vals Let_def)
  apply (simp add: pool2_crossed_def pool2_def pool1_def)
  done

lemma swap_commit: "swap ''x'' (79 / 10) 0 False pool2 = Some (Inr (Some 3), pool3)"
  apply (simp add: swap_def swap_try_def swap_x_for_y_crossing revert_swap_def token_x_pool2)
  apply (simp add: pool3_def pool2_crossed_def pool2_def pool1_def)
  done

lemma remove_bob: "remove_liquidity 1 27 pool3 = (Inr (), pool4)"
  by (simp add: remove_liquidity_def get_fees_def all_ticks_fee_within_range_def
      fee_within_range_def lower_idx_def upper_idx_def bind_result_def del_position_def
      remove_from_tick_def update_tick_map_def adjust_tick_def sort_tick_map_def
      move_balances_def liquidity_to_tokens_def sqrt_tick_values Let_def
      pool4_def pool3_def pool2_crossed_def pool2_def pool1_def fun_upd_twist)

lemma find_level_down_0: "find_level_down (324 / 361) [0 ..< 50] = Inr 0"
  by (rule find_level_down_found) simp_all

lemma py_round_val: "py_round (370000000 / 361) = 1024931"
  by (simp add: py_round_def)

lemma sqrt_price_to_tick_18_19: "sqrt_price_to_tick (18 / 19) = Inr (- 1024931)"
  by (simp add: sqrt_price_to_tick_def power2_eq_square find_level_down_0 Let_def
      std_increment_distance_def power_int_minus py_round_val)

lemma swap_x_for_y_negative_liquidity:
  "swap_x_for_y 2 0 pool4 = Some (Inr 0, pool5\<lparr>token_x_balance := 32 / 5\<rparr>)"
  apply (simp add: swap_x_for_y_def find_next_tick_def pool4_def pool3_def pool2_crossed_def
      pool2_def pool1_def py_getitem_def sqrt_tick_values)
  apply (subst swap_x_for_y_loop.simps)
  apply (simp add: swap_x_for_y_step_def deduct_fees_def add_fees_def bind_result_def
      sqrt_price_to_tick_18_19 py_int_def Let_def)
  apply (subst swap_x_for_y_loop.simps)
  apply (simp add: pool5_def pool4_def pool3_def pool2_crossed_def pool2_def pool1_def)
  done

lemma token_x_pool4: "token_x pool4 = ''x''"
  by (simp add: pool4_def pool3_def pool2_crossed_def pool2_def pool1_def)

lemma sqrt_price_to_tick_11_10: "sqrt_price_to_tick (11 / 10) = Inr 210000"
proof -
  have "Inr (sqrt (tick_price 210000)) = (Inr (11 / 10) :: error + real)"
    using tick_sqrt_price_bounded [of 210000] by (simp add: sqrt_tick_values)
  then have "sqrt (tick_price 210000) = 11 / 10" by simp
  with roundtrip_pos [of 210000] show ?thesis by simp
qed

lemma sqrt_price_to_tick_half: "sqrt_price_to_tick (1 / 2) = Inr (- 7500000)"
proof -
  have "find_level_down (1 / 4) [0 ..< 50] = Inr 0"
    by (rule find_level_down_found) simp_all
  then show ?thesis
    by (simp add: sqrt_price_to_tick_def power2_eq_square Let_def
        std_increment_distance_def power_int_minus py_round_def)
qed

lemma sqrt_tick_values_half:
  "tick_sqrt_price (- 7500000) = Inr (1 / 2)"
  "tick_sqrt_price 0 = Inr 1"
proof -
  show "tick_sqrt_price (- 7500000) = Inr (1 / 2)"
    by (rule tick_sqrt_price_value) (simp_all add: tick_price_neg_form power2_eq_square)
  show "tick_sqrt_price 0 = Inr 1"
    by (rule tick_sqrt_price_value) (simp_all add: tick_price_neg_form)
qed

lemma init_half_pool0: "init_pair ''x'' ''y'' (1 / 2) (1 / 2) 100 = Inr half_pool0"
  by (simp add: init_pair_def sqrt_price_to_tick_half half_pool0_def)

lemma add_carol: "add_liquidity ''carol'' 4 (- 7500000) 0 half_pool0 = (Inr 0, half_pool1)"
  by (simp add: add_liquidity_def half_pool0_def half_pool1_def bind_result_def
      init_or_adjust_tick_def fee_growth_outside_def fee_within_range_def sort_tick_map_def
      move_balances_def liquidity_to_tokens_def sqrt_tick_values_half Let_def)

lemma sqrt_price_to_tick_one: "sqrt_price_to_tick 1 = Inr 0"
  by (simp add: sqrt_price_to_tick_def)

lemma swap_y_for_x_on_boundary:
  "swap_y_for_x 3 100 half_pool1 =
   Some (Inr 4, half_pool1\<lparr>curr_sqrt_price := 1, curr_tick_idx := 0,
           fee_growth_global_y := 1 / 4\<rparr>)"
  apply (simp add: swap_y_for_x_def find_next_tick_def half_pool1_def half_pool0_def
      py_getitem_def sqrt_tick_values_half)
  apply (subst swap_y_for_x_loop.simps)
  apply (simp add: swap_y_for_x_step_def deduct_fees_def add_fees_def bind_result_def
      sqrt_price_to_tick_one py_int_def Let_def)
  apply (subst swap_y_for_x_loop.simps)
  apply simp
  done

section \<open>Failure and rollback of a swap\<close>

text \<open>
  Claim C1 as stated fails: a swap on the pool without ticks fails inside with
  InsufficientLiquidityException, and the caller gets the normal return value \<^verbatim>\<open>None\<close>,
  not the error.
\<close>

theorem swap_reraise_counterexample:
  "swap_try ''x'' 5 0 False pool0 pool0 = Some (Inl InsufficientLiquidityException, pool0) \<and>
   swap ''x'' 5 0 False pool0 = Some (Inr None, pool0)"
  by (simp add: swap_def swap_try_def swap_x_for_y_def find_next_tick_def revert_swap_def
      pool0_def)

text \<open>
  Claim C2, evaluated on the code. The swap \<^verbatim>\<open>swap('x', 7.9, 0, simulate=True)\<close> on
  \<open>pool2\<close> crosses the tick -1900000 and completes; the swap
  \<^verbatim>\<open>swap('x', 7.9, 0.95)\<close> crosses the same tick and then fails with
  SlippageTooHighException. After either call the \<^verbatim>\<open>Tick\<close> object of -1900000 (reference
  2) has \<open>fee_growth_outside_x = 1/9\<close>; before the call it was 0. The snapshot is a shallow
  copy, so the rollback does not reach the \<^verbatim>\<open>Tick\<close> objects.
\<close>

theorem swap_rollback_keeps_crossed_tick:
  "swap ''x'' (79 / 10) 0 True pool2 =
     Some (Inr (Some 3), pool2\<lparr>tick_objs := tick_objs pool2_crossed\<rparr>) \<and>
   swap ''x'' (79 / 10) (19 / 20) False pool2 =
     Some (Inr None, pool2\<lparr>tick_objs := tick_objs pool2_crossed\<rparr>) \<and>
   fee_growth_outside_x (tick_objs pool2 ! 2) = 0 \<and>
   fee_growth_outside_x (tick_objs pool2_crossed ! 2) = 1 / 9"
  apply (simp add: swap_def swap_try_def swap_x_for_y_crossing swap_x_for_y_slippage
      revert_swap_def token_x_pool2)
  apply (simp add: pool2_crossed_def pool2_def pool1_def)
  done

section \<open>A tentative price that lands on the boundary\<close>

lemma token_x_half_pool1: "token_x half_pool1 = ''x''"
  by (simp add: half_pool1_def half_pool0_def)

lemma swap_y_boundary:
  "swap ''y'' 3 100 False half_pool1 = Some (Inr (Some 4), half_pool2)"
  apply (simp add: swap_def swap_try_def swap_y_for_x_on_boundary revert_swap_def
      token_x_half_pool1)
  apply (simp add: half_pool2_def half_pool1_def half_pool0_def)
  done

text \<open>
  Claim C6, evaluated on the code. In \<open>half_pool1\<close> (price 0.5, fee tier 1/2, tick spacing
  100) carol's position over \<open>[-7500000, 0)\<close> is the only one and the active liquidity is
  its 4. The swap \<^verbatim>\<open>swap('y', 3, 100)\<close> pays the fee \<^verbatim>\<open>int(3 * 0.5) = 1\<close> and has the
  tentative price \<open>0.5 + 2 / 4 = 1\<close>, exactly the square-root price of the next tick 0.
  Both loops take the
  branch that stays within the cell on equality (\<^verbatim>\<open>updated_sqrt_price <= lower_tick_sqrt_price\<close>
  here), so the swap completes in \<open>half_pool2\<close> with \<open>curr_tick_idx = 0\<close> and the tick 0
  not crossed: the active liquidity is still 4 although \<open>liquidity_net\<close> of tick 0 is -4,
  and \<open>fee_growth_outside_y\<close> of tick 0 is still 0 although global minus outside is 1/4.
  By the code's own test \<^verbatim>\<open>curr_tick_idx < upper_tick_idx\<close> the pool is now outside
  carol's range while her liquidity is still active, and \<open>get_fees\<close> gives her (0, 0) of
  the fee growth 1/4 of which she was the only provider.
\<close>

theorem swap_lands_on_boundary:
  "tick_sqrt_price 0 = Inr 1 \<and>
   updated_sqrt_price_y half_pool1
     \<lparr>amount_out = 0, amount_remaining = 3, next_tick = 0, lower_tick_sqrt_price = 1\<rparr> = 1 \<and>
   liquidity half_pool1 = 4 \<and>
   swap ''y'' 3 100 False half_pool1 = Some (Inr (Some 4), half_pool2) \<and>
   curr_tick_idx half_pool2 = 0 \<and>
   liquidity half_pool2 = 4 \<and>
   map_of (ticks half_pool2) 0 = Some 1 \<and>
   liquidity_net (tick_objs half_pool2 ! 1) = - 4 \<and>
   fee_growth_outside_y (tick_objs half_pool2 ! 1) = 0 \<and>
   fee_growth_global_y half_pool2 = 1 / 4 \<and>
   positions half_pool2 (''carol'', - 7500000, 0) = Some 0 \<and>
   upper_idx half_pool2 (position_objs half_pool2 ! 0) = 0 \<and>
   get_fees half_pool2 (position_objs half_pool2 ! 0) = Inr (0, 0)"
proof -
  have a: "updated_sqrt_price_y half_pool1
     \<lparr>amount_out = 0, amount_remaining = 3, next_tick = 0, lower_tick_sqrt_price = 1\<rparr> = 1"
    by (simp add: updated_sqrt_price_y_def deduct_fees_def py_int_def half_pool1_def
        half_pool0_def)
  have b: "liquidity half_pool1 = 4" "curr_tick_idx half_pool2 = 0" "liquidity half_pool2 = 4"
    "map_of (ticks half_pool2) 0 = Some 1"
    "liquidity_net (tick_objs half_pool2 ! 1) = - 4"
    "fee_growth_outside_y (tick_objs half_pool2 ! 1) = 0"
    "fee_growth_global_y half_pool2 = 1 / 4"
    "positions half_pool2 (''carol'', - 7500000, 0) = Some 0"
    "upper_idx half_pool2 (position_objs half_pool2 ! 0) = 0"
    by (simp_all add: upper_idx_def half_pool2_def half_pool1_def half_pool0_def)
  have c: "get_fees half_pool2 (position_objs half_pool2 ! 0) = Inr (0, 0)"
    by (simp add: get_fees_def all_ticks_fee_within_range_def fee_within_range_def
        lower_idx_def upper_idx_def Let_def half_pool2_def half_pool1_def half_pool0_def)
  from sqrt_tick_values_half(2) a b swap_y_boundary c show ?thesis by blast
qed

section \<open>Fee growth over a sequence of operations\<close>

text \<open>
  Claim C8, evaluated on the code. Every call below has arguments the specification
  allows (positive liquidity, aligned ticks, \<open>lower < upper\<close>, a removal of exactly the
  position's liquidity, non-negative swap amounts, fee tier 1/2). The first swap crosses
  the tick -1900000 downwards and ends there: the liquidity of bob's position is taken out
  of the active liquidity, but \<open>curr_tick_idx\<close> is set to the crossed tick itself, which
  \<^verbatim>\<open>remove_liquidity\<close> still counts as inside bob's range \<open>[-1900000, 210000)\<close>. The
  removal subtracts the 27 a second time, the active liquidity becomes -18, and the next
  committed swap adds \<open>fees / liquidity = 1 / (-18)\<close> to \<open>fee_growth_global_x\<close>, which
  falls from 1/9 to 1/18.
\<close>

theorem fee_growth_global_x_decreases:
  "init_pair ''x'' ''y'' 1 (1 / 2) 10000 = Inr pool0 \<and>
   add_liquidity ''alice'' 9 (- 3600000) 440000 pool0 = (Inr 0, pool1) \<and>
   add_liquidity ''bob'' 27 (- 1900000) 210000 pool1 = (Inr 1, pool2) \<and>
   swap ''x'' (79 / 10) 0 False pool2 = Some (Inr (Some 3), pool3) \<and>
   remove_liquidity 1 27 pool3 = (Inr (), pool4) \<and>
   swap ''x'' 2 0 False pool4 = Some (Inr (Some 0), pool5) \<and>
   liquidity pool4 = - 18 \<and>
   fee_growth_global_x pool4 = 1 / 9 \<and>
   fee_growth_global_x pool5 = 1 / 18"
proof -
  have s: "swap ''x'' 2 0 False pool4 = Some (Inr (Some 0), pool5)"
    apply (simp add: swap_def swap_try_def swap_x_for_y_negative_liquidity revert_swap_def
        token_x_pool4)
    apply (simp add: pool5_def pool4_def)
    done
  have f: "liquidity pool4 = - 18" "fee_growth_global_x pool4 = 1 / 9"
    "fee_growth_global_x pool5 = 1 / 18"
    by (simp_all add: pool5_def pool4_def pool3_def pool2_crossed_def)
  from init_pool0 add_alice add_bob swap_commit remove_bob s f show ?thesis by blast
qed

section \<open>Withdrawing fees\<close>

text \<open>
  Claim C10. A call of \<open>withdraw_fees\<close> that returns \<open>(fees_x, fees_y)\<close> for a position
  of the store has subtracted exactly these from the two balances and has zeroed the
  pending fees of the position; the price, the current tick, the active liquidity, both
  tick maps, the \<^verbatim>\<open>Tick\<close> objects and the global fee growth are unchanged.
\<close>

theorem withdraw_fees_frame:
  assumes "withdraw_fees position st = (Inr (fx, fy), st')"
    and "position < length (position_objs st)"
  shows "token_x_balance st' = token_x_balance st - fx \<and>
         token_y_balance st' = token_y_balance st - fy \<and>
         fees_x (position_objs st' ! position) = 0 \<and>
         fees_y (position_objs st' ! position) = 0 \<and>
         curr_sqrt_price st' = curr_sqrt_price st \<and>
         curr_tick_idx st' = curr_tick_idx st \<and>
         liquidity st' = liquidity st \<and>
         ticks st' = ticks st \<and> all_ticks st' = all_ticks st \<and>
         tick_objs st' = tick_objs st \<and>
         fee_growth_global_x st' = fee_growth_global_x st \<and>
         fee_growth_global_y st' = fee_growth_global_y st"
  using assms
  by (auto simp: withdraw_fees_def collect_fees_def bind_result_def del_position_def Let_def
      split: sum.splits prod.splits if_splits option.splits)

theorem withdraw_fees_frame_witness:
  "withdraw_fees 0 pool3 =
     (Inr (1, 0),
      pool3\<lparr>token_x_balance := 597 / 55,
        position_objs := (position_objs pool3)
          [0 := \<lparr>owner = ''alice'', position_liquidity = 9, lower_tick = 0, upper_tick = 1,
                 fee_growth_inside_x = 1 / 9, fee_growth_inside_y = 0,
                 fees_x = 0, fees_y = 0\<rparr>]\<rparr>) \<and>
   0 < length (position_objs pool3) \<and>
   token_x_balance
     (pool3\<lparr>token_x_balance := 597 / 55,
        position_objs := (position_objs pool3)
          [0 := \<lparr>owner = ''alice'', position_liquidity = 9, lower_tick = 0, upper_tick = 1,
                 fee_growth_inside_x = 1 / 9, fee_growth_inside_y = 0,
                 fees_x = 0, fees_y = 0\<rparr>]\<rparr>) = token_x_balance pool3 - 1"
proof -
  let ?st' = "pool3\<lparr>token_x_balance := 597 / 55,
        position_objs := (position_objs pool3)
          [0 := \<lparr>owner = ''alice'', position_liquidity = 9, lower_tick = 0, upper_tick = 1,
                 fee_growth_inside_x = 1 / 9, fee_growth_inside_y = 0,
                 fees_x = 0, fees_y = 0\<rparr>]\<rparr>"
  have w: "withdraw_fees 0 pool3 = (Inr (1, 0), ?st')"
    by (simp add: withdraw_fees_def collect_fees_def get_fees_def
        all_ticks_fee_within_range_def fee_within_range_def lower_idx_def upper_idx_def
        bind_result_def del_position_def Let_def pool3_def pool2_crossed_def pool2_def
        pool1_def)
  have l: "0 < length (position_objs pool3)"
    by (simp add: pool3_def pool2_crossed_def pool2_def pool1_def)
  from withdraw_fees_frame [OF w l]
  have "token_x_balance ?st' = token_x_balance pool3 - 1" by blast
  with w l show ?thesis by blast
qed

section \<open>The tick maps and the position boundaries in reachable pools\<close>

lemma shrinks_refl [simp]: "shrinks st st"
  by (simp add: shrinks_def)

lemma shrinks_trans: "shrinks a b \<Longrightarrow> shrinks b c \<Longrightarrow> shrinks a c"
  by (auto simp: shrinks_def)

lemma shrinks_inv: "pool_inv st \<Longrightarrow> shrinks st st' \<Longrightarrow> pool_inv st'"
  unfolding pool_inv_def shrinks_def by (simp add: subset_iff) blast

lemma shrinks_bind:
  assumes "shrinks st (snd m)" and "\<And>v s. shrinks s (snd (f v s))"
  shows "shrinks st (snd (bind_result m f))"
proof (cases m)
  case (Pair r s)
  with assms show ?thesis
    by (cases r) (auto simp: bind_result_def intro: shrinks_trans)
qed

lemma map_update_same: "(map f xs)[r := f (xs ! r)] = map f xs"
  by (cases "r < length xs") (simp_all add: list_update_same_conv list_update_beyond)

lemma tick_ids_update:
  "idx T = idx (tick_objs st ! r) \<Longrightarrow>
   tick_ids (st\<lparr>tick_objs := (tick_objs st)[r := T]\<rparr>) = tick_ids st"
  using map_update_same [of idx "tick_objs st" r] by (simp add: tick_ids_def map_update)

lemma position_bounds_update:
  "lower_tick p = lower_tick (position_objs st ! r) \<Longrightarrow>
   upper_tick p = upper_tick (position_objs st ! r) \<Longrightarrow>
   position_bounds (st\<lparr>position_objs := (position_objs st)[r := p]\<rparr>) = position_bounds st"
  using map_update_same [of "\<lambda>p. (lower_tick p, upper_tick p)" "position_objs st" r]
  by (simp add: position_bounds_def map_update)

lemma shrinks_adjust_tick: "shrinks st (adjust_tick r n g st)"
  by (simp add: shrinks_def adjust_tick_def tick_ids_update) (simp add: position_bounds_def)

lemma shrinks_add_position_liquidity: "shrinks st (add_position_liquidity r liq st)"
  by (simp add: shrinks_def add_position_liquidity_def position_bounds_update)
    (simp add: tick_ids_def)

lemma shrinks_sort_tick_map: "shrinks st (sort_tick_map st)"
  by (simp add: shrinks_def sort_tick_map_def tick_ids_def position_bounds_def)

lemma shrinks_collect_fees: "shrinks st (snd (collect_fees position st))"
  by (auto simp: collect_fees_def Let_def shrinks_def position_bounds_update
      split: sum.splits prod.splits) (simp add: tick_ids_def)

lemma shrinks_move_balances: "shrinks st (snd (move_balances sign liq lo up st))"
  by (auto simp: move_balances_def shrinks_def tick_ids_def position_bounds_def
      split: sum.splits prod.splits)

lemma shrinks_del_position: "shrinks st (snd (del_position key st))"
  by (auto simp: del_position_def shrinks_def tick_ids_def position_bounds_def
      split: option.splits)

lemma set_delete_subset: "set (AList.delete k xs) \<subseteq> set xs"
  by (auto simp: AList.delete_eq)

lemma shrinks_update_tick_map: "shrinks st (snd (update_tick_map k st))"
proof -
  have "shrinks st (st\<lparr>ticks := AList.delete k (ticks st)\<rparr>)"
    using set_delete_subset [of k "ticks st"]
    by (simp add: shrinks_def tick_ids_def position_bounds_def)
  then show ?thesis
    by (auto simp: update_tick_map_def split: option.splits
        intro: shrinks_trans shrinks_sort_tick_map)
qed

lemma shrinks_remove_from_tick: "shrinks st (snd (remove_from_tick k n liq st))"
  by (auto simp: remove_from_tick_def split: option.splits
      intro: shrinks_trans [OF shrinks_adjust_tick shrinks_update_tick_map])

lemma shrinks_liquidity_update [simp]: "shrinks st (st\<lparr>liquidity := x\<rparr>)"
  by (simp add: shrinks_def tick_ids_def position_bounds_def)

lemma shrinks_remove_liquidity: "shrinks st (snd (remove_liquidity position liq st))"
  unfolding remove_liquidity_def Let_def
  by (auto split: sum.splits prod.splits
      intro!: shrinks_bind shrinks_remove_from_tick shrinks_move_balances shrinks_del_position
        shrinks_collect_fees shrinks_add_position_liquidity
      intro: shrinks_trans [OF shrinks_liquidity_update])

lemma shrinks_withdraw_fees: "shrinks st (snd (withdraw_fees position st))"
proof -
  have z: "\<And>s. shrinks s
      (s\<lparr>position_objs := (position_objs s)
          [position := (position_objs s ! position)\<lparr>fees_x := 0, fees_y := 0\<rparr>]\<rparr>)"
    by (simp add: shrinks_def position_bounds_update) (simp add: tick_ids_def)
  have b: "\<And>s fx fy. shrinks s
      (s\<lparr>token_x_balance := token_x_balance s - fx, token_y_balance := token_y_balance s - fy\<rparr>)"
    by (simp add: shrinks_def tick_ids_def position_bounds_def)
  show ?thesis
    unfolding withdraw_fees_def Let_def
    by (auto intro!: shrinks_bind shrinks_collect_fees
        intro: shrinks_trans [OF z shrinks_del_position] z b)
qed

lemma map_idx_update: "idx T = idx (xs ! r) \<Longrightarrow> map idx (xs[r := T]) = map idx xs"
  using map_update_same [of idx xs r] by (simp add: map_update)

lemma shrinks_cross_tick: "shrinks st (snd (cross_tick higher sign v st))"
  by (auto simp: cross_tick_def Let_def shrinks_def tick_ids_def map_idx_update
      position_bounds_def split: option.splits sum.splits prod.splits)

lemma shrinks_x_step: "shrinks st (snd (swap_x_for_y_step limit v st))"
proof -
  have c: "\<And>s x. shrinks s (s\<lparr>fee_growth_global_x := x\<rparr>)"
    by (simp add: shrinks_def tick_ids_def position_bounds_def)
  have d: "\<And>s x y t. shrinks s (s\<lparr>fee_growth_global_x := x, curr_sqrt_price := y\<rparr>)"
    "\<And>s x y t. shrinks s (s\<lparr>fee_growth_global_x := x, curr_sqrt_price := y, curr_tick_idx := t\<rparr>)"
    by (simp_all add: shrinks_def tick_ids_def position_bounds_def)
  show ?thesis
    unfolding swap_x_for_y_step_def Let_def
    by (auto split: prod.splits sum.splits intro!: shrinks_bind d
        intro: shrinks_trans [OF c shrinks_cross_tick])
qed

lemma shrinks_y_step: "shrinks st (snd (swap_y_for_x_step limit v st))"
proof -
  have c: "\<And>s x. shrinks s (s\<lparr>fee_growth_global_y := x\<rparr>)"
    by (simp add: shrinks_def tick_ids_def position_bounds_def)
  have d: "\<And>s x y t. shrinks s (s\<lparr>fee_growth_global_y := x, curr_sqrt_price := y\<rparr>)"
    "\<And>s x y t. shrinks s (s\<lparr>fee_growth_global_y := x, curr_sqrt_price := y, curr_tick_idx := t\<rparr>)"
    by (simp_all add: shrinks_def tick_ids_def position_bounds_def)
  show ?thesis
    unfolding swap_y_for_x_step_def Let_def
    by (auto split: prod.splits sum.splits intro!: shrinks_bind d
        intro: shrinks_trans [OF c shrinks_cross_tick])
qed

lemma shrinks_x_loop:
  assumes "swap_x_for_y_loop limit v st = Some y"
  shows "shrinks st (snd y)"
proof (rule swap_x_for_y_loop.raw_induct
    [where P = "\<lambda>limit v st y. shrinks st (snd y)", OF _ assms])
  fix loop limit v st y
  assume IH: "\<And>limit v st y. loop limit v st = Some y \<Longrightarrow> shrinks st (snd y)"
    and eq: "(if 0 < amount_remaining v then
                (case swap_x_for_y_step limit v st of
                   (Inl e, st') \<Rightarrow> Some (Inl e, st')
                 | (Inr v', st') \<Rightarrow> loop limit v' st')
              else Some (Inr (amount_out v), st)) = Some y"
  show "shrinks st (snd y)"
  proof (cases "0 < amount_remaining v")
    case False
    with eq have "snd y = st" by auto
    then show ?thesis by (simp add: shrinks_refl)
  next
    case True
    obtain r s where step: "swap_x_for_y_step limit v st = (r, s)"
      by (cases "swap_x_for_y_step limit v st")
    have ss: "shrinks st s" using shrinks_x_step [of st limit v] step by simp
    show ?thesis
    proof (cases r)
      case (Inl e)
      with eq True step ss show ?thesis by auto
    next
      case (Inr v')
      with eq True step have "loop limit v' s = Some y" by simp
      then have "shrinks s (snd y)" by (rule IH)
      with ss show ?thesis by (rule shrinks_trans)
    qed
  qed
qed

lemma shrinks_y_loop:
  assumes "swap_y_for_x_loop limit v st = Some y"
  shows "shrinks st (snd y)"
proof (rule swap_y_for_x_loop.raw_induct
    [where P = "\<lambda>limit v st y. shrinks st (snd y)", OF _ assms])
  fix loop limit v st y
  assume IH: "\<And>limit v st y. loop limit v st = Some y \<Longrightarrow> shrinks st (snd y)"
    and eq: "(if 0 < amount_remaining v then
                (case swap_y_for_x_step limit v st of
                   (Inl e, st') \<Rightarrow> Some (Inl e, st')
                 | (Inr v', st') \<Rightarrow> loop limit v' st')
              else Some (Inr (amount_out v), st)) = Some y"
  show "shrinks st (snd y)"
  proof (cases "0 < amount_remaining v")
    case False
    with eq have "snd y = st" by auto
    then show ?thesis by (simp add: shrinks_refl)
  next
    case True
    obtain r s where step: "swap_y_for_x_step limit v st = (r, s)"
      by (cases "swap_y_for_x_step limit v st")
    have ss: "shrinks st s" using shrinks_y_step [of st limit v] step by simp
    show ?thesis
    proof (cases r)
      case (Inl e)
      with eq True step ss show ?thesis by auto
    next
      case (Inr v')
      with eq True step have "loop limit v' s = Some y" by simp
      then have "shrinks s (snd y)" by (rule IH)
      with ss show ?thesis by (rule shrinks_trans)
    qed
  qed
qed

lemma shrinks_swap_x_for_y:
  "swap_x_for_y amount limit st = Some y \<Longrightarrow> shrinks st (snd y)"
  by (auto simp: swap_x_for_y_def split: sum.splits option.splits dest: shrinks_x_loop)

lemma shrinks_swap_y_for_x:
  "swap_y_for_x amount limit st = Some y \<Longrightarrow> shrinks st (snd y)"
  by (auto simp: swap_y_for_x_def split: sum.splits option.splits dest: shrinks_y_loop)

lemma shrinks_balances:
  "shrinks st s \<Longrightarrow> shrinks st (s\<lparr>token_x_balance := a, token_y_balance := b\<rparr>)"
  "shrinks st s \<Longrightarrow> shrinks st (s\<lparr>token_y_balance := b, token_x_balance := a\<rparr>)"
  by (simp_all add: shrinks_def tick_ids_def position_bounds_def)

lemma shrinks_revert_swap: "shrinks st s \<Longrightarrow> shrinks st (revert_swap s st)"
  by (simp add: shrinks_def revert_swap_def tick_ids_def position_bounds_def)

lemma shrinks_swap_try:
  assumes "swap_try tok amount limit simulate st st = Some y"
  shows "shrinks st (snd y)"
proof (cases "tok = token_x st")
  case True
  with assms obtain r s where x: "swap_x_for_y amount limit st = Some (r, s)"
    by (auto simp: swap_try_def split: option.splits prod.splits)
  from shrinks_swap_x_for_y [OF x] have "shrinks st s" by simp
  with assms True x show ?thesis
    by (cases r) (auto simp: swap_try_def intro: shrinks_balances shrinks_revert_swap)
next
  case False
  with assms obtain r s where x: "swap_y_for_x amount limit st = Some (r, s)"
    by (auto simp: swap_try_def split: option.splits prod.splits)
  from shrinks_swap_y_for_x [OF x] have "shrinks st s" by simp
  with assms False x show ?thesis
    by (cases r) (auto simp: swap_try_def intro: shrinks_balances shrinks_revert_swap)
qed

lemma shrinks_swap:
  assumes "swap tok amount limit simulate st = Some y"
  shows "shrinks st (snd y)"
proof -
  from assms obtain r s where t: "swap_try tok amount limit simulate st st = Some (r, s)"
    by (auto simp: swap_def split: option.splits prod.splits)
  from shrinks_swap_try [OF t] have "shrinks st s" by simp
  with assms t show ?thesis
    by (cases r) (auto simp: swap_def intro: shrinks_revert_swap)
qed

lemma pool_inv_init: "init_pair tx ty price fee spacing = Inr st \<Longrightarrow> pool_inv st"
  by (auto simp: init_pair_def pool_inv_def position_bounds_def split: sum.splits)

lemma pool_inv_init_or_adjust_tick:
  assumes "pool_inv st"
  shows "pool_inv (init_or_adjust_tick k n liq st)"
proof (cases "map_of (ticks st) k")
  case (Some r)
  then have "init_or_adjust_tick k n liq st = adjust_tick r n liq st"
    by (simp add: init_or_adjust_tick_def)
  with assms shrinks_adjust_tick [of st r n liq] show ?thesis
    by (simp add: shrinks_inv)
next
  case None
  obtain fx fy where f: "fee_growth_outside st k = (fx, fy)"
    by (cases "fee_growth_outside st k")
  define st' where "st' = init_or_adjust_tick k n liq st"
  have t: "ticks st' = ticks st @ [(k, length (tick_ids st))]"
    and a: "all_ticks st' = (all_ticks st)(k \<mapsto> length (tick_ids st))"
    and i: "tick_ids st' = tick_ids st @ [k]"
    and p: "position_bounds st' = position_bounds st"
    using None f
    by (simp_all add: st'_def init_or_adjust_tick_def tick_ids_def position_bounds_def Let_def)
  have "pool_inv st'"
    using assms unfolding pool_inv_def t a i p
    by (auto simp: nth_append split: prod.splits)
  then show ?thesis by (simp add: st'_def)
qed

lemma init_or_adjust_tick_present:
  "map_of (ticks (init_or_adjust_tick k n liq st)) k \<noteq> None"
  by (auto simp: init_or_adjust_tick_def adjust_tick_def Let_def map_add_def
      split: option.splits prod.splits)

lemma init_or_adjust_tick_keeps:
  "map_of (ticks st) j \<noteq> None \<Longrightarrow> map_of (ticks (init_or_adjust_tick k n liq st)) j \<noteq> None"
  by (auto simp: init_or_adjust_tick_def adjust_tick_def Let_def map_add_def
      split: option.splits prod.splits)

lemma pool_inv_new_position:
  assumes "pool_inv st" and "map_of (ticks st) lo = Some rl" and "map_of (ticks st) up = Some ru"
    and "lower_tick p = rl" and "upper_tick p = ru"
  shows "pool_inv (st\<lparr>position_objs := position_objs st @ [p], positions := m\<rparr>)"
proof -
  from assms(2,3) have "(lo, rl) \<in> set (ticks st)" "(up, ru) \<in> set (ticks st)"
    by (auto dest: map_of_SomeD)
  with assms(1,4,5) show ?thesis
    unfolding pool_inv_def by (auto simp: tick_ids_def position_bounds_def)
qed

lemma pool_inv_bind:
  assumes "pool_inv (snd m)" and "\<And>v s. shrinks s (snd (f v s))"
  shows "pool_inv (snd (bind_result m f))"
proof (cases m)
  case (Pair r s)
  with assms show ?thesis
    by (cases r) (auto simp: bind_result_def intro: shrinks_inv)
qed

lemma shrinks_positions_update: "shrinks st (st\<lparr>positions := m\<rparr>)"
  by (simp add: shrinks_def tick_ids_def position_bounds_def)

lemma pool_inv_add_liquidity:
  assumes "pool_inv st"
  shows "pool_inv (snd (add_liquidity own liq lo up st))"
proof -
  define st1 where "st1 = (if lo \<le> curr_tick_idx st \<and> curr_tick_idx st < up
                 then st\<lparr>liquidity := liquidity st + liq\<rparr> else st)"
  have i1: "pool_inv st1"
    using assms shrinks_liquidity_update [of st] by (auto simp: st1_def intro: shrinks_inv)
  define st2 where "st2 = init_or_adjust_tick up (- liq) liq (init_or_adjust_tick lo liq liq st1)"
  have i2: "pool_inv st2"
    unfolding st2_def by (intro pool_inv_init_or_adjust_tick i1)
  have tail: "\<And>position s. shrinks s (snd (bind_result
                (move_balances 1 liq lo up (sort_tick_map s))
                (\<lambda>_ st5. (Inr position, st5))))"
    by (intro shrinks_bind shrinks_trans [OF shrinks_sort_tick_map shrinks_move_balances]) simp
  have existing: "\<And>position s. pool_inv s \<Longrightarrow> pool_inv (snd (bind_result (collect_fees position s)
                  (\<lambda>_ st3. (Inr position,
                     (add_position_liquidity position liq st3)
                       \<lparr>positions := (positions st3)((own, lo, up) \<mapsto> position)\<rparr>))))"
    by (rule pool_inv_bind)
      (auto intro: shrinks_inv shrinks_collect_fees
         shrinks_trans [OF shrinks_add_position_liquidity shrinks_positions_update])
  have both: "\<And>position rl ru s. pool_inv s \<Longrightarrow> pool_inv (snd (bind_result (collect_fees position s)
                  (\<lambda>_ st2. (Inr position,
                     adjust_tick ru (- liq) liq
                       (adjust_tick rl liq liq (add_position_liquidity position liq st2))))))"
    by (rule pool_inv_bind)
      (auto intro: shrinks_inv shrinks_collect_fees
         shrinks_trans [OF shrinks_add_position_liquidity
           shrinks_trans [OF shrinks_adjust_tick shrinks_adjust_tick]])
  have lo2: "map_of (ticks st2) lo \<noteq> None"
    unfolding st2_def by (intro init_or_adjust_tick_keeps init_or_adjust_tick_present)
  have up2: "map_of (ticks st2) up \<noteq> None"
    unfolding st2_def by (rule init_or_adjust_tick_present)
  have fresh: "pool_inv (snd
      (case (map_of (ticks st2) lo, map_of (ticks st2) up) of
         (Some rl, Some ru) \<Rightarrow>
           (let (fee_within_range_x, fee_within_range_y) =
                  fee_within_range st2 (tick_objs st2 ! rl) (tick_objs st2 ! ru);
                position = length (position_objs st2)
            in (Inr position,
                st2\<lparr>position_objs := position_objs st2 @
                       [\<lparr>owner = own, position_liquidity = liq,
                         lower_tick = rl, upper_tick = ru,
                         fee_growth_inside_x = fee_within_range_x,
                         fee_growth_inside_y = fee_within_range_y,
                         fees_x = 0, fees_y = 0\<rparr>],
                     positions := (positions st2)((own, lo, up) \<mapsto> position)\<rparr>))
       | _ \<Rightarrow> (Inl KeyError, st2)))"
    using lo2 up2 i2
    by (auto simp: Let_def split: prod.splits intro!: pool_inv_new_position)
  have mid: "pool_inv (snd
      (case (positions st1 (own, lo, up), map_of (ticks st1) lo, map_of (ticks st1) up) of
              (Some position, Some rl, Some ru) \<Rightarrow>
                bind_result (collect_fees position st1)
                  (\<lambda>_ st2. (Inr position,
                     adjust_tick ru (- liq) liq
                       (adjust_tick rl liq liq (add_position_liquidity position liq st2))))
            | _ \<Rightarrow>
                (let st2 = init_or_adjust_tick up (- liq) liq
                             (init_or_adjust_tick lo liq liq st1)
                 in case positions st2 (own, lo, up) of
                      Some position \<Rightarrow>
                        bind_result (collect_fees position st2)
                          (\<lambda>_ st3. (Inr position,
                             (add_position_liquidity position liq st3)
                               \<lparr>positions := (positions st3)((own, lo, up) \<mapsto> position)\<rparr>))
                    | None \<Rightarrow>
                        (case (map_of (ticks st2) lo, map_of (ticks st2) up) of
                           (Some rl, Some ru) \<Rightarrow>
                             (let (fee_within_range_x, fee_within_range_y) =
                                    fee_within_range st2 (tick_objs st2 ! rl) (tick_objs st2 ! ru);
                                  position = length (position_objs st2)
                              in (Inr position,
                                  st2\<lparr>position_objs := position_objs st2 @
                                         [\<lparr>owner = own, position_liquidity = liq,
                                           lower_tick = rl, upper_tick = ru,
                                           fee_growth_inside_x = fee_within_range_x,
                                           fee_growth_inside_y = fee_within_range_y,
                                           fees_x = 0, fees_y = 0\<rparr>],
                                       positions := (positions st2)((own, lo, up) \<mapsto> position)\<rparr>))
                         | _ \<Rightarrow> (Inl KeyError, st2)))))"
    using both [OF i1] existing [OF i2] fresh
    by (simp add: Let_def st2_def [symmetric] split: option.split)
  from pool_inv_bind [OF mid tail]
  show ?thesis
    unfolding add_liquidity_def st1_def Let_def .
qed

lemma reachable_pool_inv: "reachable st \<Longrightarrow> pool_inv st"
proof (induction rule: reachable.induct)
  case (reachable_init tx ty price fee spacing st)
  then show ?case by (rule pool_inv_init)
next
  case (reachable_add st own liq lo up res st')
  from pool_inv_add_liquidity [OF reachable_add.IH, of own liq lo up] reachable_add.hyps(2)
  show ?case by simp
next
  case (reachable_remove st position liq res st')
  from shrinks_remove_liquidity [of st position liq] reachable_remove.hyps(3) reachable_remove.IH
  show ?case by (auto intro: shrinks_inv)
next
  case (reachable_collect st position res st')
  from shrinks_collect_fees [of st position] reachable_collect.hyps(3) reachable_collect.IH
  show ?case by (auto intro: shrinks_inv)
next
  case (reachable_withdraw st position res st')
  from shrinks_withdraw_fees [of st position] reachable_withdraw.hyps(3) reachable_withdraw.IH
  show ?case by (auto intro: shrinks_inv)
next
  case (reachable_swap st tok amount sqrt_price_limit simulate res st')
  from shrinks_swap [OF reachable_swap.hyps(2)] reachable_swap.IH
  show ?case by (auto intro: shrinks_inv)
qed

text \<open>
  Claim C9. In every reachable pool the keys of the active tick map are keys of
  \<^verbatim>\<open>all_ticks\<close>, both boundary indices of every position object are keys of
  \<^verbatim>\<open>all_ticks\<close>, and therefore \<open>get_fees\<close> and \<open>collect_fees\<close> on such a position find
  both boundaries and return normally, also after a boundary was dropped from the active
  map.
\<close>

theorem fee_settlement_finds_boundaries:
  assumes "reachable st" and "position < length (position_objs st)"
  shows "fst ` set (ticks st) \<subseteq> dom (all_ticks st) \<and>
         lower_idx st (position_objs st ! position) \<in> dom (all_ticks st) \<and>
         upper_idx st (position_objs st ! position) \<in> dom (all_ticks st) \<and>
         (\<exists>f. get_fees st (position_objs st ! position) = Inr f) \<and>
         (\<exists>f st'. collect_fees position st = (Inr f, st'))"
proof -
  from assms(1) have inv: "pool_inv st" by (rule reachable_pool_inv)
  let ?p = "position_objs st ! position"
  from assms(2) have "(lower_tick ?p, upper_tick ?p) \<in> set (position_bounds st)"
    by (auto simp: position_bounds_def)
  with inv have b: "lower_tick ?p < length (tick_objs st)" "upper_tick ?p < length (tick_objs st)"
    "tick_ids st ! lower_tick ?p \<in> dom (all_ticks st)"
    "tick_ids st ! upper_tick ?p \<in> dom (all_ticks st)"
    unfolding pool_inv_def by (auto simp: tick_ids_def)
  then have lo: "lower_idx st ?p \<in> dom (all_ticks st)"
    and up: "upper_idx st ?p \<in> dom (all_ticks st)"
    by (simp_all add: lower_idx_def upper_idx_def tick_ids_def)
  from inv have sub: "fst ` set (ticks st) \<subseteq> dom (all_ticks st)"
    unfolding pool_inv_def by force
  from lo up have "\<exists>w. all_ticks_fee_within_range st ?p = Inr w"
    by (auto simp: all_ticks_fee_within_range_def)
  then obtain w where w: "all_ticks_fee_within_range st ?p = Inr w" ..
  then have g: "\<exists>f. get_fees st ?p = Inr f"
    by (auto simp: get_fees_def split: prod.splits)
  with w have c: "\<exists>f st'. collect_fees position st = (Inr f, st')"
    by (auto simp: collect_fees_def Let_def split: prod.splits)
  from sub lo up g c show ?thesis by blast
qed

lemma reachable_pool4: "reachable pool4"
proof -
  have "reachable pool0" using init_pool0 by (rule reachable_init)
  then have "reachable pool1" using add_alice by (rule reachable_add)
  then have "reachable pool2" using add_bob by (rule reachable_add)
  then have r3: "reachable pool3" using swap_commit by (rule reachable_swap)
  have "1 < length (position_objs pool3)"
    by (simp add: pool3_def pool2_crossed_def pool2_def pool1_def)
  with r3 show ?thesis using remove_bob by (rule reachable_remove)
qed

theorem fee_settlement_finds_boundaries_witness:
  "reachable pool4 \<and> 1 < length (position_objs pool4) \<and>
   map_of (ticks pool4) (- 1900000) = None \<and>
   lower_idx pool4 (position_objs pool4 ! 1) = - 1900000 \<and>
   (\<exists>f. get_fees pool4 (position_objs pool4 ! 1) = Inr f)"
proof -
  have l: "1 < length (position_objs pool4)"
    by (simp add: pool4_def pool3_def pool2_crossed_def pool2_def pool1_def)
  have d: "map_of (ticks pool4) (- 1900000) = None"
    "lower_idx pool4 (position_objs pool4 ! 1) = - 1900000"
    by (simp_all add: lower_idx_def pool4_def pool3_def pool2_crossed_def pool2_def pool1_def)
  from fee_settlement_finds_boundaries [OF reachable_pool4 l]
  have "\<exists>f. get_fees pool4 (position_objs pool4 ! 1) = Inr f" by blast
  with reachable_pool4 l d show ?thesis by blast
qed

section \<open>Arguments are not validated\<close>

lemma init_or_adjust_tick_frame:
  "positions (init_or_adjust_tick k n liq st) = positions st"
  "curr_sqrt_price (init_or_adjust_tick k n liq st) = curr_sqrt_price st"
  by (simp_all add: init_or_adjust_tick_def adjust_tick_def Let_def
      split: option.splits prod.splits)

lemma add_liquidity_new_position:
  assumes p0: "curr_sqrt_price st \<noteq> 0" and fresh: "positions st (own, lo, up) = None"
    and lo: "\<bar>lo\<bar> \<le> 441000000" and up: "\<bar>up\<bar> \<le> 441000000"
  shows "\<exists>st'. add_liquidity own liq lo up st = (Inr (length (position_objs st)), st') \<and>
           positions st' (own, lo, up) = Some (length (position_objs st)) \<and>
           position_liquidity (position_objs st' ! length (position_objs st)) = liq"
proof -
  define st1 where "st1 = (if lo \<le> curr_tick_idx st \<and> curr_tick_idx st < up
                 then st\<lparr>liquidity := liquidity st + liq\<rparr> else st)"
  define st2 where "st2 = init_or_adjust_tick up (- liq) liq (init_or_adjust_tick lo liq liq st1)"
  have f1: "positions st1 (own, lo, up) = None" "curr_sqrt_price st1 \<noteq> 0"
    "position_objs st1 = position_objs st"
    using p0 fresh by (simp_all add: st1_def)
  have f2: "positions st2 (own, lo, up) = None" "curr_sqrt_price st2 \<noteq> 0"
    using f1 by (simp_all add: st2_def init_or_adjust_tick_frame)
  have l2: "position_objs st2 = position_objs st"
    using f1(3)
    by (simp add: st2_def init_or_adjust_tick_def adjust_tick_def Let_def
        split: option.splits prod.splits)
  have "map_of (ticks (init_or_adjust_tick lo liq liq st1)) lo \<noteq> None"
    by (rule init_or_adjust_tick_present)
  then have "map_of (ticks st2) lo \<noteq> None"
    unfolding st2_def by (rule init_or_adjust_tick_keeps)
  then obtain rl where rl: "map_of (ticks st2) lo = Some rl" by auto
  have "map_of (ticks st2) up \<noteq> None"
    unfolding st2_def by (rule init_or_adjust_tick_present)
  then obtain ru where ru: "map_of (ticks st2) up = Some ru" by auto
  obtain wx wy where w: "fee_within_range st2 (tick_objs st2 ! rl) (tick_objs st2 ! ru) = (wx, wy)"
    by (cases "fee_within_range st2 (tick_objs st2 ! rl) (tick_objs st2 ! ru)")
  have "0 < tick_price up" using up by (intro tick_price_pos) simp
  then have pb: "sqrt (tick_price up) \<noteq> 0" by simp
  show ?thesis
    unfolding add_liquidity_def Let_def st1_def [symmetric]
    using f1 f2 rl ru w l2 pb
    by (simp add: st2_def [symmetric] bind_result_def move_balances_def liquidity_to_tokens_def
        sort_tick_map_def tick_sqrt_price_bounded [OF lo] tick_sqrt_price_bounded [OF up]
        Let_def)
qed

lemma find_level_down_underflow:
  "a \<le> 49 \<Longrightarrow> price < 10 powi (- 49) \<Longrightarrow> find_level_down price [a ..< 50] = Inl IndexError"
proof (induction "49 - a" arbitrary: a)
  case 0
  then have "a = 49" by simp
  with 0 show ?case by (simp add: upt_conv_Cons)
next
  case (Suc n)
  then have lt: "a < 49" by simp
  then have "(10::real) powi (- 49) \<le> 10 powi (- int (Suc a))"
    by (intro power_int_increasing) auto
  with Suc.prems have np: "\<not> 10 powi (- int (Suc a)) \<le> price" by linarith
  have "(10::real) powi (- 49) \<le> 10 powi (- int a)"
    using lt by (intro power_int_increasing) auto
  with Suc.prems have p: "price < 10 powi (- int a)" by linarith
  have "find_level_down price [Suc a ..< 50] = Inl IndexError"
    using Suc by (intro Suc.hyps) auto
  with lt p np show ?case by (simp add: upt_conv_Cons)
qed

lemma sqrt_price_to_tick_nonzero:
  assumes "sqrt_price_to_tick s = Inr t"
  shows "s \<noteq> 0"
proof
  assume "s = 0"
  moreover have "find_level_down 0 [0 ..< 50] = Inl IndexError"
    by (rule find_level_down_underflow) simp_all
  ultimately have "sqrt_price_to_tick s = Inl IndexError"
    by (simp add: sqrt_price_to_tick_def)
  with assms show False by simp
qed

lemma add_liquidity_new_pool:
  assumes init: "init_pair tx ty init_price fee spacing = Inr st"
    and lo: "\<bar>lo\<bar> \<le> 441000000" and up: "\<bar>up\<bar> \<le> 441000000"
  shows "\<exists>st'. add_liquidity own liq lo up st = (Inr 0, st') \<and>
           positions st' (own, lo, up) = Some 0 \<and>
           position_liquidity (position_objs st' ! 0) = liq"
proof -
  from init obtain t where t: "sqrt_price_to_tick init_price = Inr t"
    by (auto simp: init_pair_def split: sum.splits)
  then have "init_price \<noteq> 0" by (rule sqrt_price_to_tick_nonzero)
  with init t have a: "curr_sqrt_price st \<noteq> 0" "positions st (own, lo, up) = None"
    "length (position_objs st) = 0"
    by (auto simp: init_pair_def)
  from add_liquidity_new_position [OF a(1) a(2) lo up, of liq] a(3)
  show ?thesis by simp
qed

text \<open>
  Beyond the range of floats the call fails in \<open>liquidity_to_tokens\<close>, its last step,
  after the position has been stored.
\<close>

lemma add_liquidity_overflow:
  "fst (add_liquidity ''dave'' 1 0 2781000000 pool0) = Inl OverflowError \<and>
   positions (snd (add_liquidity ''dave'' 1 0 2781000000 pool0)) (''dave'', 0, 2781000000)
     = Some 0"
  by (simp add: add_liquidity_def pool0_def bind_result_def init_or_adjust_tick_def
      fee_growth_outside_def fee_within_range_def sort_tick_map_def move_balances_def
      liquidity_to_tokens_def tick_sqrt_price_def tick_to_sqrt_price_overflow Let_def)

lemma swap_unknown_token:
  "token_in_addr \<noteq> token_x st \<Longrightarrow> other \<noteq> token_x st \<Longrightarrow>
   swap token_in_addr amount_in sqrt_price_limit simulate st =
   swap other amount_in sqrt_price_limit simulate st"
  by (simp add: swap_def swap_try_def)

lemma liquidity_bind:
  assumes "liquidity (snd m) = a" and "\<And>v s. liquidity (snd (f v s)) = liquidity s"
  shows "liquidity (snd (bind_result m f)) = a"
proof (cases m)
  case (Pair r s)
  with assms show ?thesis by (cases r) (auto simp: bind_result_def)
qed

lemma liquidity_collect_fees: "liquidity (snd (collect_fees position st)) = liquidity st"
  by (auto simp: collect_fees_def Let_def split: sum.splits prod.splits)

lemma liquidity_del_position: "liquidity (snd (del_position key st)) = liquidity st"
  by (auto simp: del_position_def split: option.splits)

lemma liquidity_remove_from_tick: "liquidity (snd (remove_from_tick k n liq st)) = liquidity st"
  by (auto simp: remove_from_tick_def update_tick_map_def adjust_tick_def sort_tick_map_def
      split: option.splits)

lemma liquidity_move_balances: "liquidity (snd (move_balances sign liq lo up st)) = liquidity st"
  by (auto simp: move_balances_def split: sum.splits prod.splits)

lemma remove_liquidity_liquidity:
  "liquidity (snd (remove_liquidity position liq st)) =
     (if lower_idx st (position_objs st ! position) \<le> curr_tick_idx st \<and>
         curr_tick_idx st < upper_idx st (position_objs st ! position)
      then liquidity st - liq else liquidity st)"
proof -
  have a: "\<And>s. liquidity (snd (bind_result (collect_fees position s)
                       (\<lambda>_ st2. (Inr (), add_position_liquidity position (- liq) st2)))) = liquidity s"
    by (rule liquidity_bind) (simp_all add: liquidity_collect_fees add_position_liquidity_def)
  have b: "\<And>s lo up. liquidity (snd (bind_result (remove_from_tick lo (- liq) liq s)
                  (\<lambda>_ st4. bind_result (remove_from_tick up liq liq st4)
                     (\<lambda>_ st5. move_balances (- 1) liq lo up st5)))) = liquidity s"
    by (intro liquidity_bind liquidity_remove_from_tick liquidity_move_balances)
  show ?thesis
    unfolding remove_liquidity_def Let_def
    by (auto split: sum.splits prod.splits
        simp: liquidity_bind [OF _ b] a liquidity_del_position)
qed

lemma sqrt_tick_value_2001: "tick_sqrt_price 2001 = Inr (1001 / 1000)"
  by (rule tick_sqrt_price_value) (simp_all add: tick_price_pos_form power2_eq_square)

lemma add_dave: "add_liquidity ''dave'' (- 5) 2001 0 pool2 = (Inr 2, pool2_dave)"
  by (simp add: add_liquidity_def pool2_dave_def pool2_def pool1_def bind_result_def
      init_or_adjust_tick_def fee_growth_outside_def fee_within_range_def sort_tick_map_def
      move_balances_def liquidity_to_tokens_def sqrt_tick_values sqrt_tick_values_half
      sqrt_tick_value_2001 Let_def eval_nat_numeral)

lemma remove_bob_over: "remove_liquidity 1 100 pool2 = (Inr (), pool2_over)"
  by (simp add: remove_liquidity_def get_fees_def collect_fees_def
      all_ticks_fee_within_range_def add_position_liquidity_def
      fee_within_range_def lower_idx_def upper_idx_def bind_result_def del_position_def
      remove_from_tick_def update_tick_map_def adjust_tick_def sort_tick_map_def
      move_balances_def liquidity_to_tokens_def sqrt_tick_values Let_def
      pool2_over_def pool2_def pool1_def)

lemma swap_z: "swap ''z'' 3 100 False half_pool1 =
     Some (Inr (Some 4),
           half_pool1\<lparr>curr_sqrt_price := 1, curr_tick_idx := 0,
             fee_growth_global_y := 1 / 4, token_y_balance := 3, token_x_balance := 0\<rparr>)"
  apply (simp add: swap_def swap_try_def swap_y_for_x_on_boundary revert_swap_def
      token_x_half_pool1)
  apply (simp add: half_pool1_def half_pool0_def)
  done

text \<open>
  Claim C3, as the code has it. No method checks its arguments and the code has no
  InvalidArgument error. On a newly constructed pool \<open>add_liquidity\<close> returns a new
  position with the liquidity it was given and stores it under its key, for every
  liquidity of magnitude up to \<open>10 ^ 300\<close> (also zero or negative) and every pair of tick
  indices of magnitude up to \<open>49 * std_increment_distance\<close> (aligned or not, in any
  order); the two bounds keep every number of the call within the range of floats, beyond
  which the arithmetic itself raises OverflowError or ZeroDivisionError.
  \<open>remove_liquidity\<close> changes the active liquidity by the amount it was given before
  anything can fail, whatever the amount is compared with the position's liquidity.
  \<open>swap\<close> does the same for every \<open>token_in_addr\<close> other than \<open>token_x\<close>.
\<close>

theorem no_argument_validation:
  "(init_pair tx ty init_price fee spacing = Inr st0 \<and>
    \<bar>lo\<bar> \<le> 49 * std_increment_distance \<and> \<bar>up\<bar> \<le> 49 * std_increment_distance \<and>
    \<bar>liq\<bar> \<le> 10 ^ 300 \<longrightarrow>
      (\<exists>st'. add_liquidity own liq lo up st0 = (Inr 0, st') \<and>
         positions st' (own, lo, up) = Some 0 \<and>
         position_liquidity (position_objs st' ! 0) = liq)) \<and>
   (\<bar>liquidity st\<bar> \<le> 10 ^ 300 \<and> \<bar>amount\<bar> \<le> 10 ^ 300 \<longrightarrow>
      liquidity (snd (remove_liquidity position amount st)) =
        (if lower_idx st (position_objs st ! position) \<le> curr_tick_idx st \<and>
            curr_tick_idx st < upper_idx st (position_objs st ! position)
         then liquidity st - amount else liquidity st)) \<and>
   (token_in_addr \<noteq> token_x st \<and> other \<noteq> token_x st \<longrightarrow>
      swap token_in_addr amount_in sqrt_price_limit simulate st =
      swap other amount_in sqrt_price_limit simulate st)"
proof -
  have "\<exists>st'. add_liquidity own liq lo up st0 = (Inr 0, st') \<and>
         positions st' (own, lo, up) = Some 0 \<and>
         position_liquidity (position_objs st' ! 0) = liq"
    if "init_pair tx ty init_price fee spacing = Inr st0"
      and "\<bar>lo\<bar> \<le> 49 * std_increment_distance" and "\<bar>up\<bar> \<le> 49 * std_increment_distance"
    using that by (intro add_liquidity_new_pool) (simp_all add: std_increment_distance_def)
  then show ?thesis
    using remove_liquidity_liquidity [of position amount st]
      swap_unknown_token [of token_in_addr st other amount_in sqrt_price_limit simulate]
    by blast
qed

theorem no_argument_validation_witness:
  "init_pair ''x'' ''y'' 1 (1 / 2) 10000 = Inr pool0 \<and>
   \<bar>2001\<bar> \<le> 49 * std_increment_distance \<and> \<bar>0\<bar> \<le> 49 * std_increment_distance \<and>
   \<bar>- 5 :: real\<bar> \<le> 10 ^ 300 \<and>
   (\<exists>st'. add_liquidity ''dave'' (- 5) 2001 0 pool0 = (Inr 0, st') \<and>
      positions st' (''dave'', 2001, 0) = Some 0 \<and>
      position_liquidity (position_objs st' ! 0) = - 5) \<and>
   \<bar>liquidity pool2\<bar> \<le> 10 ^ 300 \<and> \<bar>100 :: real\<bar> \<le> 10 ^ 300 \<and>
   liquidity (snd (remove_liquidity 1 100 pool2)) = liquidity pool2 - 100 \<and>
   ''z'' \<noteq> token_x half_pool1 \<and> ''y'' \<noteq> token_x half_pool1 \<and>
   swap ''z'' 3 100 False half_pool1 = swap ''y'' 3 100 False half_pool1"
proof -
  have a: "\<bar>2001\<bar> \<le> 49 * std_increment_distance" "\<bar>0\<bar> \<le> 49 * std_increment_distance"
    "\<bar>- 5 :: real\<bar> \<le> 10 ^ 300" "\<bar>100 :: real\<bar> \<le> 10 ^ 300"
    by (simp_all add: std_increment_distance_def)
  have l: "\<bar>liquidity pool2\<bar> \<le> 10 ^ 300"
    by (simp add: pool2_def pool1_def)
  have b: "''z'' \<noteq> token_x half_pool1" "''y'' \<noteq> token_x half_pool1"
    by (simp_all add: token_x_half_pool1)
  have c: "lower_idx pool2 (position_objs pool2 ! 1) \<le> curr_tick_idx pool2 \<and>
           curr_tick_idx pool2 < upper_idx pool2 (position_objs pool2 ! 1)"
    by (simp add: lower_idx_def upper_idx_def pool2_def pool1_def)
  from no_argument_validation [where tx = "''x''" and ty = "''y''" and init_price = 1
      and fee = "1 / 2" and spacing = 10000 and ?st0.0 = pool0 and own = "''dave''"
      and lo = 2001 and up = 0 and liq = "- 5"] init_pool0 a
  have "\<exists>st'. add_liquidity ''dave'' (- 5) 2001 0 pool0 = (Inr 0, st') \<and>
      positions st' (''dave'', 2001, 0) = Some 0 \<and>
      position_liquidity (position_objs st' ! 0) = - 5"
    by blast
  moreover from no_argument_validation [where st = pool2 and position = 1 and amount = 100]
    a l c
  have "liquidity (snd (remove_liquidity 1 100 pool2)) = liquidity pool2 - 100"
    by simp
  moreover from no_argument_validation [where st = half_pool1 and token_in_addr = "''z''"
      and other = "''y''" and amount_in = 3 and sqrt_price_limit = 100 and simulate = False] b
  have "swap ''z'' 3 100 False half_pool1 = swap ''y'' 3 100 False half_pool1"
    by blast
  ultimately show ?thesis using init_pool0 a l b by blast
qed

text \<open>
  Claim C3 as stated fails. On \<open>pool2\<close> (tick spacing 10000)
  \<^verbatim>\<open>add_liquidity('dave', -5, 2001, 0)\<close> (negative liquidity, a lower index that is not
  aligned and not below the upper one) returns a position and stores it;
  \<^verbatim>\<open>remove_liquidity(bob, 100)\<close> on bob's position of liquidity 27 returns and leaves the
  active liquidity at -64; on \<open>half_pool1\<close> \<^verbatim>\<open>swap('z', 3, 100)\<close> with the unknown token
  \<^verbatim>\<open>'z'\<close> swaps as for token y.
\<close>

theorem no_argument_validation_counterexample:
  "tick_spacing pool2 = 10000 \<and>
   add_liquidity ''dave'' (- 5) 2001 0 pool2 = (Inr 2, pool2_dave) \<and>
   positions pool2 (''dave'', 2001, 0) = None \<and>
   positions pool2_dave (''dave'', 2001, 0) = Some 2 \<and>
   position_liquidity (position_objs pool2 ! 1) = 27 \<and>
   remove_liquidity 1 100 pool2 = (Inr (), pool2_over) \<and>
   liquidity pool2 = 36 \<and> liquidity pool2_over = - 64 \<and>
   token_x half_pool1 = ''x'' \<and> token_y half_pool1 = ''y'' \<and>
   swap ''z'' 3 100 False half_pool1 =
     Some (Inr (Some 4),
           half_pool1\<lparr>curr_sqrt_price := 1, curr_tick_idx := 0,
             fee_growth_global_y := 1 / 4, token_y_balance := 3, token_x_balance := 0\<rparr>)"
proof -
  have f: "tick_spacing pool2 = 10000" "positions pool2 (''dave'', 2001, 0) = None"
    "positions pool2_dave (''dave'', 2001, 0) = Some 2"
    "position_liquidity (position_objs pool2 ! 1) = 27"
    "liquidity pool2 = 36" "liquidity pool2_over = - 64"
    "token_x half_pool1 = ''x''" "token_y half_pool1 = ''y''"
    by (simp_all add: pool2_dave_def pool2_over_def pool2_def pool1_def pool0_def
        half_pool1_def half_pool0_def)
  from f add_dave remove_bob_over swap_z show ?thesis by blast
qed

section \<open>What a failed swap leaves behind\<close>

lemma swap_frame_refl: "swap_frame st st"
  by (simp add: swap_frame_def)

lemma swap_frame_trans: "swap_frame a b \<Longrightarrow> swap_frame b c \<Longrightarrow> swap_frame a c"
  by (simp add: swap_frame_def)

lemma swap_frame_bind:
  assumes "swap_frame st (snd m)" and "\<And>v s. swap_frame s (snd (f v s))"
  shows "swap_frame st (snd (bind_result m f))"
proof (cases m)
  case (Pair r s)
  with assms show ?thesis
    by (cases r) (auto simp: bind_result_def intro: swap_frame_trans)
qed

lemma map_tick_core_update:
  "tick_core T = tick_core (xs ! r) \<Longrightarrow> map tick_core (xs[r := T]) = map tick_core xs"
  using map_update_same [of tick_core xs r] by (simp add: map_update)

lemma swap_frame_cross_tick: "swap_frame st (snd (cross_tick higher sign v st))"
  by (auto simp: cross_tick_def Let_def swap_frame_def map_tick_core_update tick_core_def
      split: option.splits sum.splits prod.splits)

lemma swap_frame_x_step: "swap_frame st (snd (swap_x_for_y_step limit v st))"
proof -
  have c: "\<And>s x. swap_frame s (s\<lparr>fee_growth_global_x := x\<rparr>)"
    by (simp add: swap_frame_def)
  have d: "\<And>s x y t. swap_frame s (s\<lparr>fee_growth_global_x := x, curr_sqrt_price := y\<rparr>)"
    "\<And>s x y t. swap_frame s
       (s\<lparr>fee_growth_global_x := x, curr_sqrt_price := y, curr_tick_idx := t\<rparr>)"
    by (simp_all add: swap_frame_def)
  show ?thesis
    unfolding swap_x_for_y_step_def Let_def
    by (auto split: prod.splits sum.splits intro!: swap_frame_bind d swap_frame_refl
        intro: swap_frame_trans [OF c swap_frame_cross_tick])
qed

lemma swap_frame_y_step: "swap_frame st (snd (swap_y_for_x_step limit v st))"
proof -
  have c: "\<And>s x. swap_frame s (s\<lparr>fee_growth_global_y := x\<rparr>)"
    by (simp add: swap_frame_def)
  have d: "\<And>s x y t. swap_frame s (s\<lparr>fee_growth_global_y := x, curr_sqrt_price := y\<rparr>)"
    "\<And>s x y t. swap_frame s
       (s\<lparr>fee_growth_global_y := x, curr_sqrt_price := y, curr_tick_idx := t\<rparr>)"
    by (simp_all add: swap_frame_def)
  show ?thesis
    unfolding swap_y_for_x_step_def Let_def
    by (auto split: prod.splits sum.splits intro!: swap_frame_bind d swap_frame_refl
        intro: swap_frame_trans [OF c swap_frame_cross_tick])
qed

lemma swap_frame_x_loop:
  assumes "swap_x_for_y_loop limit v st = Some y"
  shows "swap_frame st (snd y)"
proof (rule swap_x_for_y_loop.raw_induct
    [where P = "\<lambda>limit v st y. swap_frame st (snd y)", OF _ assms])
  fix loop limit v st y
  assume IH: "\<And>limit v st y. loop limit v st = Some y \<Longrightarrow> swap_frame st (snd y)"
    and eq: "(if 0 < amount_remaining v then
                (case swap_x_for_y_step limit v st of
                   (Inl e, st') \<Rightarrow> Some (Inl e, st')
                 | (Inr v', st') \<Rightarrow> loop limit v' st')
              else Some (Inr (amount_out v), st)) = Some y"
  show "swap_frame st (snd y)"
  proof (cases "0 < amount_remaining v")
    case False
    with eq have "snd y = st" by auto
    then show ?thesis by (simp add: swap_frame_refl)
  next
    case True
    obtain r s where step: "swap_x_for_y_step limit v st = (r, s)"
      by (cases "swap_x_for_y_step limit v st")
    have ss: "swap_frame st s" using swap_frame_x_step [of st limit v] step by simp
    show ?thesis
    proof (cases r)
      case (Inl e)
      with eq True step ss show ?thesis by auto
    next
      case (Inr v')
      with eq True step have "loop limit v' s = Some y" by simp
      then have "swap_frame s (snd y)" by (rule IH)
      with ss show ?thesis by (rule swap_frame_trans)
    qed
  qed
qed

lemma swap_frame_y_loop:
  assumes "swap_y_for_x_loop limit v st = Some y"
  shows "swap_frame st (snd y)"
proof (rule swap_y_for_x_loop.raw_induct
    [where P = "\<lambda>limit v st y. swap_frame st (snd y)", OF _ assms])
  fix loop limit v st y
  assume IH: "\<And>limit v st y. loop limit v st = Some y \<Longrightarrow> swap_frame st (snd y)"
    and eq: "(if 0 < amount_remaining v then
                (case swap_y_for_x_step limit v st of
                   (Inl e, st') \<Rightarrow> Some (Inl e, st')
                 | (Inr v', st') \<Rightarrow> loop limit v' st')
              else Some (Inr (amount_out v), st)) = Some y"
  show "swap_frame st (snd y)"
  proof (cases "0 < amount_remaining v")
    case False
    with eq have "snd y = st" by auto
    then show ?thesis by (simp add: swap_frame_refl)
  next
    case True
    obtain r s where step: "swap_y_for_x_step limit v st = (r, s)"
      by (cases "swap_y_for_x_step limit v st")
    have ss: "swap_frame st s" using swap_frame_y_step [of st limit v] step by simp
    show ?thesis
    proof (cases r)
      case (Inl e)
      with eq True step ss show ?thesis by auto
    next
      case (Inr v')
      with eq True step have "loop limit v' s = Some y" by simp
      then have "swap_frame s (snd y)" by (rule IH)
      with ss show ?thesis by (rule swap_frame_trans)
    qed
  qed
qed

lemma swap_frame_swap_x_for_y:
  "swap_x_for_y amount limit st = Some y \<Longrightarrow> swap_frame st (snd y)"
  by (auto simp: swap_x_for_y_def swap_frame_refl split: sum.splits option.splits
      dest: swap_frame_x_loop)

lemma swap_frame_swap_y_for_x:
  "swap_y_for_x amount limit st = Some y \<Longrightarrow> swap_frame st (snd y)"
  by (auto simp: swap_y_for_x_def swap_frame_refl split: sum.splits option.splits
      dest: swap_frame_y_loop)

lemma swap_frame_swap_try_failure:
  assumes "swap_try tok amount limit simulate st st = Some (Inl e, st1)"
  shows "swap_frame st st1"
proof (cases "tok = token_x st")
  case True
  with assms have "swap_x_for_y amount limit st = Some (Inl e, st1)"
    by (auto simp: swap_try_def split: option.splits prod.splits sum.splits)
  from swap_frame_swap_x_for_y [OF this] show ?thesis by simp
next
  case False
  with assms have "swap_y_for_x amount limit st = Some (Inl e, st1)"
    by (auto simp: swap_try_def split: option.splits prod.splits sum.splits)
  from swap_frame_swap_y_for_x [OF this] show ?thesis by simp
qed

text \<open>
  Claim C1, as the code has it. When the body of the \<^verbatim>\<open>try\<close> statement raises, \<open>swap\<close>
  binds every attribute of the pool to its value in the pre-call snapshot and then returns
  \<^verbatim>\<open>None\<close>: the exception is printed and swallowed, not raised again. The pool is the
  pre-call pool up to the \<^verbatim>\<open>Tick\<close> objects, whose index, net and gross liquidity are
  the pre-call ones (their \<open>fee_growth_outside\<close> is the subject of claim C2).
\<close>

theorem swap_failure_returns_None:
  assumes "swap_try token_in_addr amount_in sqrt_price_limit simulate st st = Some (Inl e, st1)"
  shows "swap token_in_addr amount_in sqrt_price_limit simulate st =
           Some (Inr None, st\<lparr>tick_objs := tick_objs st1\<rparr>) \<and>
         map tick_core (tick_objs st1) = map tick_core (tick_objs st)"
proof -
  from swap_frame_swap_try_failure [OF assms]
  have f: "position_objs st1 = position_objs st"
    "map tick_core (tick_objs st1) = map tick_core (tick_objs st)"
    by (simp_all add: swap_frame_def)
  from assms f show ?thesis by (simp add: swap_def revert_swap_def)
qed

theorem swap_failure_returns_None_witness:
  "swap_try ''x'' (79 / 10) (19 / 20) False pool2 pool2
     = Some (Inl SlippageTooHighException, pool2_crossed) \<and>
   swap ''x'' (79 / 10) (19 / 20) False pool2 =
     Some (Inr None, pool2\<lparr>tick_objs := tick_objs pool2_crossed\<rparr>)"
proof -
  have t: "swap_try ''x'' (79 / 10) (19 / 20) False pool2 pool2
           = Some (Inl SlippageTooHighException, pool2_crossed)"
    by (simp add: swap_try_def token_x_pool2 swap_x_for_y_slippage)
  from swap_failure_returns_None [OF t] t show ?thesis by blast
qed

end
